theory Spec2Isabelle
  imports Main "HOL-Library.Word"
begin

section \<open>Python values used by the obfuscator\<close>

text \<open>
  Exceptions are values.  The constructor is the class an \<^verbatim>\<open>except\<close> clause of the
  program matches on (a library exception is filed under the nearest of these classes it
  inherits from), the string is the argument the exception was built with.
\<close>

datatype error = KeyError string | ValueError string | TypeError string | Exception string

text \<open>
  A \<^verbatim>\<open>str\<close> is the list of its characters, and a character is a code point below 256.
\<close>

abbreviation sq :: char where "sq \<equiv> CHR 0x27"
abbreviation dq :: char where "dq \<equiv> CHR 0x22"
abbreviation bsl :: char where "bsl \<equiv> CHR 0x5C"
abbreviation nl :: char where "nl \<equiv> CHR 0x0A"
abbreviation cr :: char where "cr \<equiv> CHR 0x0D"
abbreviation tab :: char where "tab \<equiv> CHR 0x09"

definition hex_digit :: "nat \<Rightarrow> char" where
  "hex_digit d = (if d < 10 then char_of (48 + d) else char_of (87 + d))"

definition hex2 :: "char \<Rightarrow> string" where
  "hex2 c = [hex_digit ((of_char c :: nat) div 16), hex_digit ((of_char c :: nat) mod 16)]"

text \<open>
  \<^verbatim>\<open>repr\<close> of a \<^verbatim>\<open>str\<close>: single quotes, unless the text holds a single quote and no
  double quote; the chosen quote and the backslash are escaped, and every character that
  is not printable is written as an escape: the control characters below 0x20, DEL, the
  characters 0x80 to 0xA0 and the soft hyphen 0xAD.
\<close>

definition repr_char :: "char \<Rightarrow> char \<Rightarrow> string" where
  "repr_char q c =
     (if c = q \<or> c = bsl then [bsl, c]
      else if c = nl then [bsl, CHR ''n'']
      else if c = cr then [bsl, CHR ''r'']
      else if c = tab then [bsl, CHR ''t'']
      else if (of_char c :: nat) < 32 \<or> (of_char c :: nat) = 127
              \<or> (128 \<le> (of_char c :: nat) \<and> (of_char c :: nat) \<le> 160) \<or> (of_char c :: nat) = 173
        then [bsl, CHR ''x''] @ hex2 c
      else [c])"

definition py_repr :: "string \<Rightarrow> string" where
  "py_repr s =
     (let q = (if sq \<in> set s \<and> dq \<notin> set s then dq else sq)
      in [q] @ concat (map (repr_char q) s) @ [q])"

text \<open>\<^verbatim>\<open>str(e)\<close>: a \<^verbatim>\<open>KeyError\<close> prints the repr of its argument, the others the argument.\<close>

fun str_of :: "error \<Rightarrow> string" where
  "str_of (KeyError a) = py_repr a"
| "str_of (ValueError a) = a"
| "str_of (TypeError a) = a"
| "str_of (Exception a) = a"

text \<open>Decimal text of an integer, as \<^verbatim>\<open>str(n)\<close> prints it.\<close>

fun show_nat :: "nat \<Rightarrow> string" where
  "show_nat n = (if n < 10 then [char_of (48 + n)] else show_nat (n div 10) @ [char_of (48 + n mod 10)])"

declare show_nat.simps [simp del]

definition show_int :: "int \<Rightarrow> string" where
  "show_int i = (if i < 0 then CHR ''-'' # show_nat (nat (- i)) else show_nat (nat i))"

text \<open>\<^verbatim>\<open>sep.join(parts)\<close>.\<close>

fun join :: "string \<Rightarrow> string list \<Rightarrow> string" where
  "join sep [] = []"
| "join sep [x] = x"
| "join sep (x # y # ys) = x @ sep @ join sep (y # ys)"

text \<open>
  \<^verbatim>\<open>s.lower()\<close>: the letters A to Z and the upper-case letters 0xC0 to 0xDE (the
  multiplication sign 0xD7 is no letter) are lowered, every other character is kept.
\<close>

definition lower_char :: "char \<Rightarrow> char" where
  "lower_char c =
     (if (65 \<le> (of_char c :: nat) \<and> (of_char c :: nat) \<le> 90)
         \<or> (192 \<le> (of_char c :: nat) \<and> (of_char c :: nat) \<le> 222 \<and> (of_char c :: nat) \<noteq> 215)
      then char_of ((of_char c :: nat) + 32) else c)"

definition str_lower :: "string \<Rightarrow> string" where
  "str_lower s = map lower_char s"

text \<open>
  \<^verbatim>\<open>s.replace(old, new)\<close>: every occurrence of \<open>old\<close>, found from the left and not
  overlapping, is replaced.  With an empty \<open>old\<close> Python puts \<open>new\<close> before every character
  and at the end.
\<close>

function str_replace :: "string \<Rightarrow> string \<Rightarrow> string \<Rightarrow> string" where
  "str_replace s old new =
     (if old = [] then new @ concat (map (\<lambda>c. c # new) s)
      else if s = [] then []
      else if take (length old) s = old then new @ str_replace (drop (length old) s) old new
      else hd s # str_replace (tl s) old new)"
  by pat_completeness auto
termination
  by (relation "measure (\<lambda>(s, old, new). length s)") (auto simp: neq_Nil_conv)

declare str_replace.simps [simp del]

text \<open>\<^verbatim>\<open>s.split(sep)\<close> for a one-character separator, and its pieces used by the program.\<close>

fun split_on :: "char \<Rightarrow> string \<Rightarrow> string list" where
  "split_on sep [] = [[]]"
| "split_on sep (c # cs) =
     (if c = sep then [] # split_on sep cs
      else (case split_on sep cs of [] \<Rightarrow> [[c]] | w # ws \<Rightarrow> (c # w) # ws))"

definition split_last :: "char \<Rightarrow> string \<Rightarrow> string" where
  "split_last sep s = last (split_on sep s)"

definition split_once :: "char \<Rightarrow> string \<Rightarrow> string list" where
  "split_once sep s =
     (if sep \<in> set s then [takeWhile (\<lambda>c. c \<noteq> sep) s, tl (dropWhile (\<lambda>c. c \<noteq> sep) s)] else [s])"

text \<open>\<^verbatim>\<open>old in s\<close> for two texts: \<open>old\<close> stands somewhere in \<open>s\<close>.\<close>

fun occurs_in :: "string \<Rightarrow> string \<Rightarrow> bool" where
  "occurs_in old [] = (old = [])"
| "occurs_in old (c # cs) = (take (length old) (c # cs) = old \<or> occurs_in old cs)"

section \<open>Row batches\<close>

text \<open>
  A pandas \<^verbatim>\<open>DataFrame\<close> with the default index: the column labels in order and the
  records in order, each record holding one scalar per column.  \<open>IntC\<close> is an integer,
  \<open>StrC\<close> a text and \<open>NaN\<close> a missing value.  \<open>FloatC w\<close> is the float64 whose value is
  the integer \<open>sint w\<close>: an integer of 54 bits, which float64 holds exactly and prints
  without an exponent.  Other float64 values are outside the model.
\<close>

datatype cell = IntC int | FloatC "54 word" | StrC string | NaN

record dataframe =
  columns :: "string list"
  rows :: "cell list list"

definition wf_df :: "dataframe \<Rightarrow> bool" where
  "wf_df df = list_all (\<lambda>r. length r = length (columns df)) (rows df)"

definition mask_value :: cell where
  "mask_value = StrC ''***''"

text \<open>\<^verbatim>\<open>df[field] = v\<close> for a scalar \<open>v\<close>: every column labelled \<open>field\<close> is filled with \<open>v\<close>.\<close>

fun set_in_row :: "string list \<Rightarrow> cell list \<Rightarrow> string \<Rightarrow> cell \<Rightarrow> cell list" where
  "set_in_row (c # cs) (x # xs) field v = (if c = field then v else x) # set_in_row cs xs field v"
| "set_in_row [] xs field v = xs"
| "set_in_row cs [] field v = []"

definition setitem :: "dataframe \<Rightarrow> string \<Rightarrow> cell \<Rightarrow> dataframe" where
  "setitem df field v = df\<lparr>rows := map (\<lambda>r. set_in_row (columns df) r field v) (rows df)\<rparr>"

section \<open>What pandas writes\<close>

text \<open>
  \<^verbatim>\<open>DataFrame.to_csv(buf, index=False, header=h)\<close>.  Every record is one line closed by a
  line feed; the labels are one more line in front when \<open>h\<close> holds.  A field is quoted
  when it holds the separator, a double quote or a line feed, and a line whose only field
  is empty is written as two double quotes.  A missing value is the empty field.
\<close>

fun cell_text :: "cell \<Rightarrow> string" where
  "cell_text (IntC n) = show_int n"
| "cell_text (FloatC w) = show_int (sint w) @ ''.0''"
| "cell_text (StrC s) = s"
| "cell_text NaN = []"

definition csv_field :: "string \<Rightarrow> string" where
  "csv_field s =
     (if \<exists>c \<in> set s. c = CHR '','' \<or> c = dq \<or> c = nl
      then [dq] @ concat (map (\<lambda>c. if c = dq then [dq, dq] else [c]) s) @ [dq]
      else s)"

definition csv_line :: "string list \<Rightarrow> string" where
  "csv_line fs = (if fs = [[]] then [dq, dq] else join '','' (map csv_field fs)) @ [nl]"

definition csv_body :: "dataframe \<Rightarrow> string" where
  "csv_body df = concat (map (\<lambda>r. csv_line (map cell_text r)) (rows df))"

definition to_csv :: "dataframe \<Rightarrow> bool \<Rightarrow> string" where
  "to_csv df header = (if header then csv_line (columns df) else []) @ csv_body df"

text \<open>
  \<^verbatim>\<open>DataFrame.to_json(buf, orient='records', lines=True)\<close>: one object for every record,
  its members in column order, the objects separated by line feeds and a line feed at the
  end.  Labels that are not unique are refused.  In a text the double quote, the backslash
  and the slash are escaped; control characters and characters above 0x7F are written as
  escapes.
\<close>

definition json_char :: "char \<Rightarrow> string" where
  "json_char c =
     (if c = dq \<or> c = bsl \<or> c = CHR ''/'' then [bsl, c]
      else if c = nl then [bsl, CHR ''n'']
      else if c = cr then [bsl, CHR ''r'']
      else if c = tab then [bsl, CHR ''t'']
      else if c = CHR 0x08 then [bsl, CHR ''b'']
      else if c = CHR 0x0C then [bsl, CHR ''f'']
      else if (of_char c :: nat) < 32 \<or> 128 \<le> (of_char c :: nat)
        then [bsl, CHR ''u'', CHR ''0'', CHR ''0''] @ hex2 c
      else [c])"

definition json_quote :: "string \<Rightarrow> string" where
  "json_quote s = [dq] @ concat (map json_char s) @ [dq]"

fun json_cell :: "cell \<Rightarrow> string" where
  "json_cell (IntC n) = show_int n"
| "json_cell (FloatC w) = show_int (sint w) @ ''.0''"
| "json_cell (StrC s) = json_quote s"
| "json_cell NaN = ''null''"

definition json_record :: "string list \<Rightarrow> cell list \<Rightarrow> string" where
  "json_record cols r =
     ''{'' @ join '','' (map (\<lambda>(c, v). json_quote c @ '':'' @ json_cell v) (zip cols r)) @ ''}''"

definition to_json :: "dataframe \<Rightarrow> error + string" where
  "to_json df =
     (if distinct (columns df)
      then Inr (join [nl] (map (json_record (columns df)) (rows df)) @ [nl])
      else Inl (ValueError (''DataFrame columns must be unique for orient='' @ [sq] @ ''records'' @ [sq] @ ''.'')))"

section \<open>io.BytesIO\<close>

text \<open>
  The buffer with its content and its position.  The content is kept as the text that is
  written to it; for ASCII text this is the sequence of its bytes.
\<close>

record bytesio =
  getvalue :: string
  pos :: nat

definition new_bytesio :: bytesio where
  "new_bytesio = \<lparr>getvalue = [], pos = 0\<rparr>"

definition bio_write :: "bytesio \<Rightarrow> string \<Rightarrow> bytesio" where
  "bio_write b s =
     \<lparr>getvalue = take (pos b) (getvalue b) @ replicate (pos b - length (getvalue b)) (CHR 0x00)
                  @ s @ drop (pos b + length s) (getvalue b),
      pos = pos b + length s\<rparr>"

definition bio_seek :: "bytesio \<Rightarrow> nat \<Rightarrow> bytesio" where
  "bio_seek b n = b\<lparr>pos := n\<rparr>"

definition bio_read :: "bytesio \<Rightarrow> string" where
  "bio_read b = drop (pos b) (getvalue b)"

section \<open>The libraries the program calls\<close>

text \<open>
  An iterator that is read to its end is the list of what it yields and the exception it
  stops with, if any.
\<close>

type_synonym 'a gen = "'a list \<times> error option"

text \<open>
  An item of a JSON array as \<^verbatim>\<open>ijson.items\<close> yields it: a flat object, that is a
  \<^verbatim>\<open>dict\<close> in insertion order whose values are integers, texts or \<^verbatim>\<open>None\<close>.  The
  integers are those of 54 bits (from \<open>- 2^53\<close> to \<open>2^53 - 1\<close>), which a float64 column
  keeps exactly.
\<close>

datatype jscalar = JInt "54 word" | JStr string | JNull

type_synonym json_obj = "(string \<times> jscalar) list"

text \<open>
  What \<^verbatim>\<open>json.loads\<close> returns for the descriptor: an object (a \<^verbatim>\<open>dict\<close>) whose values are
  texts or lists of texts, a list of such values, a text, or any other value (a number,
  a boolean, \<^verbatim>\<open>None\<close>), of which the name of its type is kept.
\<close>

datatype dval = DStr string | DList "string list"

datatype jdoc = DObject "(string \<times> dval) list" | DArray "dval list" | DText string | DAtom string

text \<open>
  The parsers and encoders of pandas, ijson, pyarrow and json are parameters of the model:
  \<^item> \<open>pd_read_csv_chunks s n\<close> is \<^verbatim>\<open>pd.read_csv(io.StringIO(s), chunksize=n)\<close>, iterated;
  \<^item> \<open>pd_read_csv s\<close> is \<^verbatim>\<open>pd.read_csv(buf)\<close> for a buffer that reads as \<open>s\<close>;
  \<^item> \<open>ijson_items s\<close> is \<^verbatim>\<open>ijson.items(s.encode('utf8'), 'item')\<close>, iterated;
  \<^item> \<open>pq_iter_batches s n\<close> is \<^verbatim>\<open>pq.ParquetFile(s).iter_batches(batch_size=n)\<close>, every
    batch through \<^verbatim>\<open>to_pandas()\<close>;
  \<^item> \<open>pd_to_parquet df\<close> is what \<^verbatim>\<open>df.to_parquet(buf, index=False, engine='pyarrow')\<close> writes;
  \<^item> \<open>pq_read_table b\<close> is \<^verbatim>\<open>pq.read_table(io.BytesIO(b)).to_pandas()\<close>;
  \<^item> \<open>bytes_decode b\<close> is \<^verbatim>\<open>b.decode('utf8')\<close>;
  \<^item> \<open>json_loads s\<close> is \<^verbatim>\<open>json.loads(s)\<close>.
\<close>

record libs =
  pd_read_csv_chunks :: "string \<Rightarrow> int \<Rightarrow> dataframe gen"
  pd_read_csv :: "string \<Rightarrow> error + dataframe"
  ijson_items :: "string \<Rightarrow> json_obj gen"
  pq_iter_batches :: "string \<Rightarrow> int \<Rightarrow> dataframe gen"
  pd_to_parquet :: "dataframe \<Rightarrow> error + string"
  pq_read_table :: "string \<Rightarrow> error + dataframe"
  bytes_decode :: "string \<Rightarrow> error + string"
  json_loads :: "string \<Rightarrow> error + jdoc"

text \<open>
  \<^verbatim>\<open>pd.DataFrame(chunk)\<close> for a list of flat objects.  The labels are the keys in the order
  they first appear; a record has a missing value where its object has no such key or has
  \<^verbatim>\<open>None\<close>.  A column of integers and missing values is stored as float64.
\<close>

definition key_union :: "json_obj list \<Rightarrow> string list" where
  "key_union objs = foldl (\<lambda>acc k. if k \<in> set acc then acc else acc @ [k]) [] (concat (map (map fst) objs))"

definition raw_cell :: "json_obj \<Rightarrow> string \<Rightarrow> cell" where
  "raw_cell obj k =
     (case map_of obj k of
        None \<Rightarrow> NaN
      | Some JNull \<Rightarrow> NaN
      | Some (JInt w) \<Rightarrow> IntC (sint w)
      | Some (JStr s) \<Rightarrow> StrC s)"

fun is_IntC :: "cell \<Rightarrow> bool" where
  "is_IntC (IntC n) = True"
| "is_IntC c = False"

definition float_column :: "cell list \<Rightarrow> bool" where
  "float_column vs = (NaN \<in> set vs \<and> (\<exists>v \<in> set vs. is_IntC v) \<and> (\<forall>v \<in> set vs. is_IntC v \<or> v = NaN))"

definition float_cell :: "json_obj \<Rightarrow> string \<Rightarrow> cell" where
  "float_cell obj k = (case map_of obj k of Some (JInt w) \<Rightarrow> FloatC w | _ \<Rightarrow> NaN)"

definition pd_DataFrame :: "json_obj list \<Rightarrow> dataframe" where
  "pd_DataFrame objs =
     (let cols = key_union objs
      in \<lparr>columns = cols,
          rows = map (\<lambda>obj. map (\<lambda>k. if float_column (map (\<lambda>ob. raw_cell ob k) objs)
                                       then float_cell obj k else raw_cell obj k) cols) objs\<rparr>)"

section \<open>obfuscator.py\<close>

subsection \<open>The mask operation\<close>

definition field_not_found :: "string \<Rightarrow> error" where
  "field_not_found field = KeyError (''Field '' @ [sq] @ field @ [sq] @ '' not'' @ ''found in the data.'')"

text \<open>
  \<^verbatim>\<open>obfuscate_fields_in_df\<close> works on the caller's object.  The first component is that
  object when the call ends, the second the exception it ends with; with \<open>None\<close> the call
  returns, and what it returns is the same object.
\<close>

fun obfuscate_fields_in_df :: "dataframe \<Rightarrow> string list \<Rightarrow> dataframe \<times> error option" where
  "obfuscate_fields_in_df df [] = (df, None)"
| "obfuscate_fields_in_df df (field # fields_list) =
     (if field \<in> set (columns df)
      then obfuscate_fields_in_df (setitem df field mask_value) fields_list
      else (df, Some (field_not_found field)))"

subsection \<open>The pipeline\<close>

definition process_df_chunk :: "dataframe \<Rightarrow> string list \<Rightarrow> bytesio \<Rightarrow> bool \<Rightarrow> error + bytesio" where
  "process_df_chunk chunk fields_list output is_first_chunk =
     (case obfuscate_fields_in_df chunk fields_list of
        (obfuscated_df, None) \<Rightarrow> Inr (bio_write output (to_csv obfuscated_df is_first_chunk))
      | (_, Some e) \<Rightarrow> Inl e)"

text \<open>
  The loop of \<^verbatim>\<open>process_json_chunk\<close> over the items that are left, with the items
  gathered so far, the header flag and the buffer; \<open>stop\<close> is the exception the item
  iterator ends with.
\<close>

fun json_loop :: "string list \<Rightarrow> int \<Rightarrow> json_obj list \<Rightarrow> error option \<Rightarrow> json_obj list \<Rightarrow> bool
    \<Rightarrow> bytesio \<Rightarrow> error + bytesio" where
  "json_loop fields_list chunk_size [] stop chunk is_first_chunk output =
     (case stop of
        Some e \<Rightarrow> Inl e
      | None \<Rightarrow>
          (if chunk \<noteq> [] then process_df_chunk (pd_DataFrame chunk) fields_list output is_first_chunk
           else Inr output))"
| "json_loop fields_list chunk_size (obj # objs) stop chunk is_first_chunk output =
     (let chunk' = chunk @ [obj]
      in if int (length chunk') = chunk_size
         then (case process_df_chunk (pd_DataFrame chunk') fields_list output is_first_chunk of
                 Inl e \<Rightarrow> Inl e
               | Inr output' \<Rightarrow> json_loop fields_list chunk_size objs stop [] False output')
         else json_loop fields_list chunk_size objs stop chunk' is_first_chunk output)"

definition process_json_chunk :: "libs \<Rightarrow> string \<Rightarrow> string list \<Rightarrow> bytesio \<Rightarrow> int \<Rightarrow> error + bytesio" where
  "process_json_chunk L file_content fields_list output chunk_size =
     (case ijson_items L file_content of
        (json_objects, stop) \<Rightarrow> json_loop fields_list chunk_size json_objects stop [] True output)"

text \<open>
  The loop over the batches of a reader, as the CSV branch and \<^verbatim>\<open>process_parquet_chunk\<close>
  both write it: process the batch, then clear the header flag.
\<close>

fun chunk_loop :: "string list \<Rightarrow> dataframe list \<Rightarrow> error option \<Rightarrow> bool \<Rightarrow> bytesio \<Rightarrow> error + bytesio" where
  "chunk_loop fields_list [] stop is_first_chunk output =
     (case stop of Some e \<Rightarrow> Inl e | None \<Rightarrow> Inr output)"
| "chunk_loop fields_list (chunk # chunks) stop is_first_chunk output =
     (case process_df_chunk chunk fields_list output is_first_chunk of
        Inl e \<Rightarrow> Inl e
      | Inr output' \<Rightarrow> chunk_loop fields_list chunks stop False output')"

definition process_parquet_chunk :: "libs \<Rightarrow> string \<Rightarrow> string list \<Rightarrow> bytesio \<Rightarrow> int \<Rightarrow> error + bytesio" where
  "process_parquet_chunk L file_content fields_list output chunk_size =
     (case pq_iter_batches L file_content chunk_size of
        (batches, stop) \<Rightarrow> chunk_loop fields_list batches stop True output)"

definition supported_formats :: "string list" where
  "supported_formats = [''csv'', ''json'', ''parquet'']"

definition not_supported :: "string \<Rightarrow> error" where
  "not_supported fmt =
     ValueError (''Sorry that '' @ fmt @ '' is not supported. '' @
                 ''This tool currently only support csv/json/parquet'')"

definition convert_str_file_content_to_obfuscated_csv ::
    "libs \<Rightarrow> string \<Rightarrow> string list \<Rightarrow> string \<Rightarrow> int \<Rightarrow> error + bytesio" where
  "convert_str_file_content_to_obfuscated_csv L file_content fields_list file_type chunk_size =
     (if file_type \<notin> set supported_formats then Inl (not_supported file_type)
      else
        (case (if file_type = ''csv''
               then (case pd_read_csv_chunks L file_content chunk_size of
                       (chunk_iter, stop) \<Rightarrow> chunk_loop fields_list chunk_iter stop True new_bytesio)
               else if file_type = ''json''
               then process_json_chunk L file_content fields_list new_bytesio chunk_size
               else process_parquet_chunk L file_content fields_list new_bytesio chunk_size) of
           Inl e \<Rightarrow> Inl e
         | Inr output \<Rightarrow> Inr (bio_seek output 0)))"

definition convert_csv_to_output_format :: "libs \<Rightarrow> bytesio \<Rightarrow> string \<Rightarrow> error + bytesio" where
  "convert_csv_to_output_format L csv_bytes output_format =
     (case pd_read_csv L (bio_read (bio_seek csv_bytes 0)) of
        Inl e \<Rightarrow> Inl e
      | Inr df \<Rightarrow>
          (if output_format = ''json''
           then (case to_json df of
                   Inl e \<Rightarrow> Inl e
                 | Inr s \<Rightarrow> Inr (bio_seek (bio_write new_bytesio s) 0))
           else if output_format = ''parquet''
           then (case pd_to_parquet L df of
                   Inl e \<Rightarrow> Inl e
                 | Inr s \<Rightarrow> Inr (bio_seek (bio_write new_bytesio s) 0))
           else Inl (ValueError (''Unsupported format.'' @ '' Only '' @ [sq] @ ''json'' @ [sq] @
                                 '' and '' @ [sq] @ ''parquet'' @ [sq] @ '' are allowed.''))))"

text \<open>The body of the \<^verbatim>\<open>try\<close> of \<^verbatim>\<open>obfuscate_file\<close>, then its \<^verbatim>\<open>except\<close> clauses.\<close>

definition obfuscate_file_try ::
    "libs \<Rightarrow> string \<Rightarrow> string list \<Rightarrow> string \<Rightarrow> string option \<Rightarrow> int \<Rightarrow> error + bytesio" where
  "obfuscate_file_try L file_content fields_list file_type output_format chunk_size =
     (let file_type = str_lower file_type
      in case convert_str_file_content_to_obfuscated_csv L file_content fields_list file_type chunk_size of
           Inl e \<Rightarrow> Inl e
         | Inr output \<Rightarrow>
             (case (case output_format of
                      None \<Rightarrow> Inr file_type
                    | Some fmt \<Rightarrow> if fmt \<notin> set supported_formats then Inl (not_supported fmt) else Inr fmt) of
                Inl e \<Rightarrow> Inl e
              | Inr output_format \<Rightarrow>
                  (if output_format \<noteq> ''csv''
                   then convert_csv_to_output_format L output output_format
                   else Inr output)))"

fun obfuscate_file_except :: "error \<Rightarrow> error" where
  "obfuscate_file_except (KeyError a) = KeyError (''Error processing data chunk: '' @ str_of (KeyError a))"
| "obfuscate_file_except (ValueError a) = ValueError (''Error reading the file: '' @ str_of (ValueError a))"
| "obfuscate_file_except e = Exception (''Unexpected error in obfuscating file: '' @ str_of e)"

definition obfuscate_file ::
    "libs \<Rightarrow> string \<Rightarrow> string list \<Rightarrow> string \<Rightarrow> string option \<Rightarrow> int \<Rightarrow> error + bytesio" where
  "obfuscate_file L file_content fields_list file_type output_format chunk_size =
     (case obfuscate_file_try L file_content fields_list file_type output_format chunk_size of
        Inl e \<Rightarrow> Inl (obfuscate_file_except e)
      | Inr output \<Rightarrow> Inr output)"

section \<open>utils.py\<close>

text \<open>
  The object store: for every bucket that exists, its objects by key.  \<^verbatim>\<open>get_object\<close>
  fails on a bucket or key that is not there, \<^verbatim>\<open>put_object\<close> on a bucket that is not
  there; credentials and the network are not modelled.
\<close>

type_synonym s3 = "string \<rightharpoonup> (string \<rightharpoonup> string)"

definition get_object :: "s3 \<Rightarrow> string \<Rightarrow> string \<Rightarrow> error + string" where
  "get_object store bucket key =
     (case store bucket of
        None \<Rightarrow> Inl (Exception (''An error occurred (NoSuchBucket) when calling the GetObject operation: '' @
                               ''The specified bucket does not exist''))
      | Some objs \<Rightarrow>
          (case objs key of
             None \<Rightarrow> Inl (Exception (''An error occurred (NoSuchKey) when calling the GetObject operation: '' @
                                    ''The specified key does not exist.''))
           | Some body \<Rightarrow> Inr body))"

definition put_object :: "s3 \<Rightarrow> string \<Rightarrow> string \<Rightarrow> string \<Rightarrow> error + s3" where
  "put_object store bucket key body =
     (case store bucket of
        None \<Rightarrow> Inl (Exception (''An error occurred (NoSuchBucket) when calling the PutObject operation: '' @
                               ''The specified bucket does not exist''))
      | Some objs \<Rightarrow> Inr (store(bucket \<mapsto> objs(key \<mapsto> body))))"

definition unsupported_file_type :: "string \<Rightarrow> error" where
  "unsupported_file_type ext = ValueError (''Unsupported file type: '' @ ext)"

definition read_s3_file :: "libs \<Rightarrow> s3 \<Rightarrow> string \<Rightarrow> string \<Rightarrow> error + (string \<times> string)" where
  "read_s3_file L store s3_bucket file_key =
     (case get_object store s3_bucket file_key of
        Inl e \<Rightarrow> Inl e
      | Inr content \<Rightarrow>
          (let file_extension = str_lower (split_last (CHR ''.'') file_key)
           in case (if file_extension \<in> set [''csv'', ''json''] then bytes_decode L content
                    else if file_extension = ''parquet''
                    then (case pq_read_table L content of
                            Inl e \<Rightarrow> Inl e
                          | Inr df \<Rightarrow> Inr (to_csv df True))
                    else Inl (unsupported_file_type file_extension)) of
                Inr content_str \<Rightarrow> Inr (content_str, file_extension)
              | Inl (ValueError a) \<Rightarrow> Inl (ValueError a)
              | Inl e \<Rightarrow> Inl (Exception (''Unexpected Error: '' @ str_of e))))"

definition write_s3_file_try :: "libs \<Rightarrow> s3 \<Rightarrow> string \<Rightarrow> string \<Rightarrow> bytesio \<Rightarrow> error + s3" where
  "write_s3_file_try L store s3_bucket file_key file_content =
     (let file_extension = str_lower (split_last (CHR ''.'') file_key)
      in case (if file_extension \<in> set [''csv'', ''json''] then bytes_decode L (getvalue file_content)
               else if file_extension = ''parquet'' then Inr (getvalue file_content)
               else Inl (unsupported_file_type file_extension)) of
           Inl e \<Rightarrow> Inl e
         | Inr body_content \<Rightarrow> put_object store s3_bucket file_key body_content)"

definition write_s3_file :: "libs \<Rightarrow> s3 \<Rightarrow> string \<Rightarrow> string \<Rightarrow> bytesio \<Rightarrow> (error + string) \<times> s3" where
  "write_s3_file L store s3_bucket file_key file_content =
     (case write_s3_file_try L store s3_bucket file_key file_content of
        Inr store' \<Rightarrow>
          (Inr (file_key @ '' has been successfully '' @ ''uploaded to s3 bucket '' @ s3_bucket), store')
      | Inl (ValueError a) \<Rightarrow> (Inl (ValueError (''ValueError: '' @ a)), store)
      | Inl e \<Rightarrow> (Inl (Exception (''Unexpected Error: '' @ str_of e)), store))"

text \<open>
  \<^verbatim>\<open>json_input_handler\<close>.  The two keys are looked for with \<^verbatim>\<open>in\<close>, which a number, a
  boolean or \<^verbatim>\<open>None\<close> does not support, and which is a search in a text or a list; a
  text or a list that holds both keys cannot be indexed by a key.  A descriptor value
  that is a list has no \<^verbatim>\<open>replace\<close>; a field list that is a text is handed on as it is,
  and iterating it gives its characters.
\<close>

definition fields_of :: "dval \<Rightarrow> string list" where
  "fields_of v = (case v of DList fs \<Rightarrow> fs | DStr s \<Rightarrow> map (\<lambda>c. [c]) s)"

definition missing_keys :: error where
  "missing_keys = ValueError ''Missing required keys in JSON input''"

definition json_input_handler_try :: "libs \<Rightarrow> string \<Rightarrow> error + (string \<times> string \<times> string list)" where
  "json_input_handler_try L json_input =
     (case json_loads L json_input of
        Inl e \<Rightarrow> Inl e
      | Inr (DAtom ty) \<Rightarrow>
          Inl (TypeError (''argument of type '' @ [sq] @ ty @ [sq] @ '' is not iterable''))
      | Inr (DText s) \<Rightarrow>
          (if \<not> occurs_in ''file_to_obfuscate'' s \<or> \<not> occurs_in ''pii_fields'' s
           then Inl missing_keys
           else Inl (TypeError (''string indices must be integers, not '' @ [sq] @ ''str'' @ [sq])))
      | Inr (DArray xs) \<Rightarrow>
          (if DStr ''file_to_obfuscate'' \<notin> set xs \<or> DStr ''pii_fields'' \<notin> set xs
           then Inl missing_keys
           else Inl (TypeError ''list indices must be integers or slices, not str''))
      | Inr (DObject json_dict) \<Rightarrow>
          (if ''file_to_obfuscate'' \<notin> fst ` set json_dict \<or> ''pii_fields'' \<notin> fst ` set json_dict
           then Inl missing_keys
           else
             (case map_of json_dict ''file_to_obfuscate'' of
                Some (DStr s3_url) \<Rightarrow>
                  (case split_once (CHR ''/'') (str_replace s3_url ''s3://'' []) of
                     [s3_bucket, file_key] \<Rightarrow>
                       (case map_of json_dict ''pii_fields'' of
                          Some pii \<Rightarrow> Inr (s3_bucket, file_key, fields_of pii)
                        | None \<Rightarrow> Inl (KeyError ''pii_fields''))
                   | _ \<Rightarrow> Inl (ValueError ''not enough values to unpack (expected 2, got 1)''))
              | Some (DList xs) \<Rightarrow>
                  Inl (Exception ([sq] @ ''list'' @ [sq] @ '' object has no attribute '' @ [sq] @ ''replace'' @ [sq]))
              | None \<Rightarrow> Inl (KeyError ''file_to_obfuscate''))))"

fun json_input_handler_except :: "error \<Rightarrow> error" where
  "json_input_handler_except (TypeError a) = TypeError ''The input is not a JSON string''"
| "json_input_handler_except (ValueError a) = ValueError ''Invalid JSON input''"
| "json_input_handler_except e = Exception (''Unexpected error: '' @ str_of e)"

definition json_input_handler :: "libs \<Rightarrow> string \<Rightarrow> error + (string \<times> string \<times> string list)" where
  "json_input_handler L json_input =
     (case json_input_handler_try L json_input of
        Inl e \<Rightarrow> Inl (json_input_handler_except e)
      | Inr r \<Rightarrow> Inr r)"

section \<open>main.py\<close>

datatype handled = Saved string | Returned bytesio

definition handle_file_obfuscation_try ::
    "libs \<Rightarrow> s3 \<Rightarrow> string \<Rightarrow> bool \<Rightarrow> string option \<Rightarrow> int \<Rightarrow> bool \<Rightarrow> (error + handled) \<times> s3" where
  "handle_file_obfuscation_try L store json_string if_output_different_format output_format chunk_size if_save_to_s3 =
     (case json_input_handler L json_string of
        Inl e \<Rightarrow> (Inl e, store)
      | Inr (s3_bucket, file_key, fields_list) \<Rightarrow>
          (case read_s3_file L store s3_bucket file_key of
             Inl e \<Rightarrow> (Inl e, store)
           | Inr (content_str, file_extension) \<Rightarrow>
               (case (if if_output_different_format
                      then obfuscate_file L content_str fields_list file_extension output_format chunk_size
                      else obfuscate_file L content_str fields_list file_extension None chunk_size) of
                  Inl e \<Rightarrow> (Inl e, store)
                | Inr content_BytesIO \<Rightarrow>
                    (if if_save_to_s3
                     then (let output_file_key = str_replace file_key ''new_data'' ''processed_data''
                           in case write_s3_file L store s3_bucket output_file_key content_BytesIO of
                                (Inl e, store') \<Rightarrow> (Inl e, store')
                              | (Inr _, store') \<Rightarrow>
                                  (Inr (Saved (''Obfuscated file saved to s3://'' @ s3_bucket @ ''/'' @ output_file_key)),
                                   store'))
                     else (Inr (Returned content_BytesIO), store)))))"

definition handle_file_obfuscation ::
    "libs \<Rightarrow> s3 \<Rightarrow> string \<Rightarrow> bool \<Rightarrow> string option \<Rightarrow> int \<Rightarrow> bool \<Rightarrow> (error + handled) \<times> s3" where
  "handle_file_obfuscation L store json_string if_output_different_format output_format chunk_size if_save_to_s3 =
     (case handle_file_obfuscation_try L store json_string if_output_different_format output_format
             chunk_size if_save_to_s3 of
        (Inl e, store') \<Rightarrow> (Inl (Exception (str_of e)), store')
      | (Inr r, store') \<Rightarrow> (Inr r, store'))"

section \<open>A fragment of the libraries, for concrete runs\<close>

text \<open>
  The theorems below hold for every behaviour of the libraries.  To run the program on
  concrete texts, this section gives one instance of them that follows pandas, ijson and
  json on a fragment of their inputs; outside the fragment, be the input valid or not, it
  answers with the error \<open>outside_fragment\<close>.  The fragment:
  \<^item> CSV: lines closed by line feeds, empty lines skipped, no quote and no carriage
    return, labels distinct and not empty, every record with one field per label; a field
    is empty, an integer literal of 54 bits, or a text that pandas
    does not read as a number, a boolean or a missing value;
  \<^item> JSON data: an array of flat objects whose values are integers of 54 bits, texts
    without \<^verbatim>\<open>\u\<close> escapes, or \<^verbatim>\<open>null\<close>; an array that breaks off ends the iterator
    with an exception, as ijson does, under a message of the model's own;
  \<^item> the descriptor: an object whose values are texts or arrays of texts, an array of
    texts, a text, an integer of 54 bits or \<^verbatim>\<open>null\<close>;
  \<^item> bytes that are ASCII; nothing of Parquet.
\<close>

definition outside_fragment :: error where
  "outside_fragment = Exception ''outside the modelled fragment''"

subsection \<open>CSV\<close>

definition is_digit :: "char \<Rightarrow> bool" where
  "is_digit c = (48 \<le> (of_char c :: nat) \<and> (of_char c :: nat) \<le> 57)"

definition is_blank :: "char \<Rightarrow> bool" where
  "is_blank c = (c = CHR '' '' \<or> c = tab)"

definition strip_sign :: "string \<Rightarrow> string" where
  "strip_sign t = (case t of [] \<Rightarrow> [] | c # cs \<Rightarrow> if c = CHR ''+'' \<or> c = CHR ''-'' then cs else t)"

definition digits_value :: "string \<Rightarrow> nat" where
  "digits_value ds = foldl (\<lambda>a c. 10 * a + ((of_char c :: nat) - 48)) 0 ds"

definition int_literal :: "string \<Rightarrow> int option" where
  "int_literal t =
     (let ds = strip_sign t
      in if ds \<noteq> [] \<and> list_all is_digit ds
         then Some (if hd t = CHR ''-'' then - int (digits_value ds) else int (digits_value ds))
         else None)"

definition numeric_like :: "string \<Rightarrow> bool" where
  "numeric_like t =
     (let u = strip_sign t;
          m = takeWhile (\<lambda>c. is_digit c \<or> c = CHR ''.'') u;
          r = dropWhile (\<lambda>c. is_digit c \<or> c = CHR ''.'') u
      in m \<noteq> [] \<and> (r = [] \<or> ((hd r = CHR ''e'' \<or> hd r = CHR ''E'') \<and> list_all is_digit (strip_sign (tl r)))))"

definition special_tokens :: "string list" where
  "special_tokens =
     [''#n/a'', ''#n/a n/a'', ''#na'', ''-1.#ind'', ''-1.#qnan'', ''-nan'', ''1.#ind'', ''1.#qnan'',
      ''<na>'', ''n/a'', ''na'', ''null'', ''nan'', ''none'', ''true'', ''false'',
      ''inf'', ''+inf'', ''-inf'', ''infinity'', ''+infinity'', ''-infinity'']"

datatype field_kind = KEmpty | KInt int | KText | KOut

definition classify :: "string \<Rightarrow> field_kind" where
  "classify t =
     (if t = [] then KEmpty
      else if is_blank (hd t) \<or> is_blank (last t) then KOut
      else (case int_literal t of
              Some n \<Rightarrow> if - (2 ^ 53) \<le> n \<and> n < 2 ^ 53 then KInt n else KOut
            | None \<Rightarrow> if numeric_like t \<or> str_lower t \<in> set special_tokens then KOut else KText))"

text \<open>
  The cells of one column of one chunk: texts as they stand as soon as one field is a text,
  integers when every field is an integer, float64 otherwise.
\<close>

definition column_cell :: "string list \<Rightarrow> string \<Rightarrow> cell" where
  "column_cell col t =
     (if KText \<in> classify ` set col then (if t = [] then NaN else StrC t)
      else (case classify t of
              KInt n \<Rightarrow> if KEmpty \<in> classify ` set col then FloatC (word_of_int n) else IntC n
            | _ \<Rightarrow> NaN))"

definition csv_cells :: "nat \<Rightarrow> string list list \<Rightarrow> cell list list" where
  "csv_cells ncols rs = map (\<lambda>r. map (\<lambda>j. column_cell (map (\<lambda>r'. r' ! j) rs) (r ! j)) [0..<ncols]) rs"

definition csv_parse :: "string \<Rightarrow> error + (string list \<times> string list list)" where
  "csv_parse content =
     (if dq \<in> set content \<or> cr \<in> set content then Inl outside_fragment
      else (case filter (\<lambda>l. l \<noteq> []) (split_on nl content) of
              [] \<Rightarrow> Inl (ValueError ''No columns to parse from file'')
            | h # ls \<Rightarrow>
                (let cols = split_on (CHR '','') h; rs = map (split_on (CHR '','')) ls
                 in if distinct cols \<and> [] \<notin> set cols \<and> list_all (\<lambda>r. length r = length cols) rs
                       \<and> list_all (\<lambda>r. list_all (\<lambda>t. classify t \<noteq> KOut) r) rs
                    then Inr (cols, rs) else Inl outside_fragment)))"

function chunks_of :: "nat \<Rightarrow> 'a list \<Rightarrow> 'a list list" where
  "chunks_of n xs = (if n = 0 \<or> xs = [] then [] else take n xs # chunks_of n (drop n xs))"
  by pat_completeness auto
termination
  by (relation "measure (\<lambda>(n, xs). length xs)") auto

declare chunks_of.simps [simp del]

definition fragment_read_csv_chunks :: "string \<Rightarrow> int \<Rightarrow> dataframe gen" where
  "fragment_read_csv_chunks content chunksize =
     (if chunksize < 1 then ([], Some (ValueError ([sq] @ ''chunksize'' @ [sq] @ '' must be an integer >=1'')))
      else (case csv_parse content of
              Inl e \<Rightarrow> ([], Some e)
            | Inr (cols, rs) \<Rightarrow>
                (if rs = [] then [\<lparr>columns = cols, rows = []\<rparr>]
                 else map (\<lambda>ch. \<lparr>columns = cols, rows = csv_cells (length cols) ch\<rparr>)
                        (chunks_of (nat chunksize) rs),
                 None)))"

definition fragment_read_csv :: "string \<Rightarrow> error + dataframe" where
  "fragment_read_csv content =
     (case csv_parse content of
        Inl e \<Rightarrow> Inl e
      | Inr (cols, rs) \<Rightarrow> Inr \<lparr>columns = cols, rows = csv_cells (length cols) rs\<rparr>)"

subsection \<open>JSON\<close>

datatype token =
  TLBrack | TRBrack | TLBrace | TRBrace | TComma | TColon | TStr string | TInt int | TNull | TBad

datatype lex_mode = Idle | InStr string | InEsc string | InWord string

definition unescape :: "char \<Rightarrow> char option" where
  "unescape c =
     (if c = dq \<or> c = bsl \<or> c = CHR ''/'' then Some c
      else if c = CHR ''n'' then Some nl
      else if c = CHR ''r'' then Some cr
      else if c = CHR ''t'' then Some tab
      else if c = CHR ''b'' then Some (CHR 0x08)
      else if c = CHR ''f'' then Some (CHR 0x0C)
      else None)"

definition word_token :: "string \<Rightarrow> token" where
  "word_token w =
     (if w = ''null'' then TNull
      else if w \<noteq> [] \<and> hd w \<noteq> CHR ''+'' \<and> (strip_sign w = ''0'' \<or> (strip_sign w \<noteq> [] \<and> hd (strip_sign w) \<noteq> CHR ''0''))
      then (case int_literal w of
              Some n \<Rightarrow> if - (2 ^ 53) \<le> n \<and> n < 2 ^ 53 then TInt n else TBad
            | None \<Rightarrow> TBad)
      else TBad)"

definition is_word_char :: "char \<Rightarrow> bool" where
  "is_word_char c =
     (is_digit c \<or> c = CHR ''-'' \<or> c = CHR ''+'' \<or> c = CHR ''.''
      \<or> (65 \<le> (of_char c :: nat) \<and> (of_char c :: nat) \<le> 90)
      \<or> (97 \<le> (of_char c :: nat) \<and> (of_char c :: nat) \<le> 122))"

definition lex_idle :: "char \<Rightarrow> token list \<times> lex_mode" where
  "lex_idle c =
     (if c = CHR '' '' \<or> c = tab \<or> c = nl \<or> c = cr then ([], Idle)
      else if c = CHR ''['' then ([TLBrack], Idle)
      else if c = CHR '']'' then ([TRBrack], Idle)
      else if c = CHR ''{'' then ([TLBrace], Idle)
      else if c = CHR ''}'' then ([TRBrace], Idle)
      else if c = CHR '','' then ([TComma], Idle)
      else if c = CHR '':'' then ([TColon], Idle)
      else if c = dq then ([], InStr [])
      else if is_word_char c then ([], InWord [c])
      else ([TBad], Idle))"

fun lex :: "lex_mode \<Rightarrow> string \<Rightarrow> token list" where
  "lex Idle [] = []"
| "lex (InStr acc) [] = [TBad]"
| "lex (InEsc acc) [] = [TBad]"
| "lex (InWord w) [] = [word_token w]"
| "lex Idle (c # cs) = (case lex_idle c of (ts, m) \<Rightarrow> ts @ lex m cs)"
| "lex (InStr acc) (c # cs) =
     (if c = dq then TStr acc # lex Idle cs
      else if c = bsl then lex (InEsc acc) cs
      else if (of_char c :: nat) < 32 then [TBad]
      else lex (InStr (acc @ [c])) cs)"
| "lex (InEsc acc) (c # cs) =
     (case unescape c of Some d \<Rightarrow> lex (InStr (acc @ [d])) cs | None \<Rightarrow> [TBad])"
| "lex (InWord w) (c # cs) =
     (if is_word_char c then lex (InWord (w @ [c])) cs
      else (case lex_idle c of (ts, m) \<Rightarrow> word_token w # ts @ lex m cs))"

text \<open>A \<^verbatim>\<open>dict\<close> in insertion order: a key that is set again keeps its place.\<close>

fun dict_set :: "(string \<times> 'v) list \<Rightarrow> string \<Rightarrow> 'v \<Rightarrow> (string \<times> 'v) list" where
  "dict_set [] k v = [(k, v)]"
| "dict_set ((k', v') # kvs) k v = (if k' = k then (k, v) # kvs else (k', v') # dict_set kvs k v)"

text \<open>
  The items of the top-level array, one after the other; a token that cannot follow stops
  the iterator with an error after the items that were complete.
\<close>

datatype item_state =
  AStart | AItemOrEnd | AItem | AKeyOrClose | AKey | AColon string | AValue string
  | AMemberEnd | AAfterItem | ADone

definition item_step :: "item_state \<Rightarrow> json_obj \<Rightarrow> token \<Rightarrow> (item_state \<times> json_obj \<times> json_obj option) option" where
  "item_step st cur t =
     (case st of
        AStart \<Rightarrow> (case t of TLBrack \<Rightarrow> Some (AItemOrEnd, [], None) | _ \<Rightarrow> None)
      | AItemOrEnd \<Rightarrow>
          (case t of TRBrack \<Rightarrow> Some (ADone, [], None) | TLBrace \<Rightarrow> Some (AKeyOrClose, [], None) | _ \<Rightarrow> None)
      | AItem \<Rightarrow> (case t of TLBrace \<Rightarrow> Some (AKeyOrClose, [], None) | _ \<Rightarrow> None)
      | AKeyOrClose \<Rightarrow>
          (case t of TRBrace \<Rightarrow> Some (AAfterItem, [], Some cur) | TStr k \<Rightarrow> Some (AColon k, cur, None) | _ \<Rightarrow> None)
      | AKey \<Rightarrow> (case t of TStr k \<Rightarrow> Some (AColon k, cur, None) | _ \<Rightarrow> None)
      | AColon k \<Rightarrow> (case t of TColon \<Rightarrow> Some (AValue k, cur, None) | _ \<Rightarrow> None)
      | AValue k \<Rightarrow>
          (case t of
             TStr s \<Rightarrow> Some (AMemberEnd, dict_set cur k (JStr s), None)
           | TInt n \<Rightarrow> Some (AMemberEnd, dict_set cur k (JInt (word_of_int n)), None)
           | TNull \<Rightarrow> Some (AMemberEnd, dict_set cur k JNull, None)
           | _ \<Rightarrow> None)
      | AMemberEnd \<Rightarrow>
          (case t of TComma \<Rightarrow> Some (AKey, cur, None) | TRBrace \<Rightarrow> Some (AAfterItem, [], Some cur) | _ \<Rightarrow> None)
      | AAfterItem \<Rightarrow>
          (case t of TComma \<Rightarrow> Some (AItem, [], None) | TRBrack \<Rightarrow> Some (ADone, [], None) | _ \<Rightarrow> None)
      | ADone \<Rightarrow> None)"

fun yield :: "json_obj option \<Rightarrow> json_obj gen \<Rightarrow> json_obj gen" where
  "yield None g = g"
| "yield (Some obj) (objs, stop) = (obj # objs, stop)"

fun items_run :: "(item_state \<times> json_obj \<times> json_obj option) option \<Rightarrow> token list \<Rightarrow> json_obj gen" where
  "items_run None ts = ([], Some outside_fragment)"
| "items_run (Some (st, cur, y)) [] =
     yield y ([], if st = ADone then None else Some (Exception ''Incomplete JSON content''))"
| "items_run (Some (st, cur, y)) (t # ts) = yield y (items_run (item_step st cur t) ts)"

definition fragment_ijson_items :: "string \<Rightarrow> json_obj gen" where
  "fragment_ijson_items s = items_run (Some (AStart, [], None)) (lex Idle s)"

text \<open>The descriptor: one object, its values texts or arrays of texts.\<close>

datatype desc_state =
  OStart | OKeyOrClose | OKey | OColon string | OValue string | OListFirst string
  | OListItem string "string list" | OListSep string "string list" | OMemberEnd | ODone

definition desc_step :: "desc_state \<Rightarrow> (string \<times> dval) list \<Rightarrow> token \<Rightarrow> (desc_state \<times> (string \<times> dval) list) option" where
  "desc_step st cur t =
     (case st of
        OStart \<Rightarrow> (case t of TLBrace \<Rightarrow> Some (OKeyOrClose, cur) | _ \<Rightarrow> None)
      | OKeyOrClose \<Rightarrow> (case t of TRBrace \<Rightarrow> Some (ODone, cur) | TStr k \<Rightarrow> Some (OColon k, cur) | _ \<Rightarrow> None)
      | OKey \<Rightarrow> (case t of TStr k \<Rightarrow> Some (OColon k, cur) | _ \<Rightarrow> None)
      | OColon k \<Rightarrow> (case t of TColon \<Rightarrow> Some (OValue k, cur) | _ \<Rightarrow> None)
      | OValue k \<Rightarrow>
          (case t of TStr s \<Rightarrow> Some (OMemberEnd, dict_set cur k (DStr s)) | TLBrack \<Rightarrow> Some (OListFirst k, cur) | _ \<Rightarrow> None)
      | OListFirst k \<Rightarrow>
          (case t of TRBrack \<Rightarrow> Some (OMemberEnd, dict_set cur k (DList [])) | TStr s \<Rightarrow> Some (OListSep k [s], cur) | _ \<Rightarrow> None)
      | OListItem k xs \<Rightarrow> (case t of TStr s \<Rightarrow> Some (OListSep k (xs @ [s]), cur) | _ \<Rightarrow> None)
      | OListSep k xs \<Rightarrow>
          (case t of TComma \<Rightarrow> Some (OListItem k xs, cur) | TRBrack \<Rightarrow> Some (OMemberEnd, dict_set cur k (DList xs)) | _ \<Rightarrow> None)
      | OMemberEnd \<Rightarrow> (case t of TComma \<Rightarrow> Some (OKey, cur) | TRBrace \<Rightarrow> Some (ODone, cur) | _ \<Rightarrow> None)
      | ODone \<Rightarrow> None)"

fun desc_run :: "(desc_state \<times> (string \<times> dval) list) option \<Rightarrow> token list \<Rightarrow> error + jdoc" where
  "desc_run None ts = Inl outside_fragment"
| "desc_run (Some (st, cur)) [] = (if st = ODone then Inr (DObject cur) else Inl outside_fragment)"
| "desc_run (Some (st, cur)) (t # ts) = desc_run (desc_step st cur t) ts"

text \<open>A top-level array of texts, after its opening bracket; \<open>want\<close> says that a text is due.\<close>

fun array_run :: "bool \<Rightarrow> dval list \<Rightarrow> token list \<Rightarrow> error + jdoc" where
  "array_run want acc [] = Inl outside_fragment"
| "array_run want acc (t # ts) =
     (case t of
        TStr s \<Rightarrow> if want then array_run False (acc @ [DStr s]) ts else Inl outside_fragment
      | TComma \<Rightarrow> if want then Inl outside_fragment else array_run True acc ts
      | TRBrack \<Rightarrow> if want \<or> ts \<noteq> [] then Inl outside_fragment else Inr (DArray acc)
      | _ \<Rightarrow> Inl outside_fragment)"

definition fragment_json_loads :: "string \<Rightarrow> error + jdoc" where
  "fragment_json_loads s =
     (case lex Idle s of
        [TInt n] \<Rightarrow> Inr (DAtom ''int'')
      | [TNull] \<Rightarrow> Inr (DAtom ''NoneType'')
      | [TStr t] \<Rightarrow> Inr (DText t)
      | [TLBrack, TRBrack] \<Rightarrow> Inr (DArray [])
      | TLBrack # ts \<Rightarrow> array_run True [] ts
      | ts \<Rightarrow> desc_run (Some (OStart, [])) ts)"

subsection \<open>The instance\<close>

definition fragment_decode :: "string \<Rightarrow> error + string" where
  "fragment_decode b = (if list_all (\<lambda>c. (of_char c :: nat) < 128) b then Inr b else Inl outside_fragment)"

definition fragment :: libs where
  "fragment =
     \<lparr>pd_read_csv_chunks = fragment_read_csv_chunks,
      pd_read_csv = fragment_read_csv,
      ijson_items = fragment_ijson_items,
      pq_iter_batches = (\<lambda>s n. ([], Some outside_fragment)),
      pd_to_parquet = (\<lambda>df. Inl outside_fragment),
      pq_read_table = (\<lambda>b. Inl outside_fragment),
      bytes_decode = fragment_decode,
      json_loads = fragment_json_loads\<rparr>"

section \<open>Notions used to state the properties\<close>

text \<open>The batch as \<^verbatim>\<open>obfuscate_fields_in_df\<close> leaves it.\<close>

definition masked :: "string list \<Rightarrow> dataframe \<Rightarrow> dataframe" where
  "masked fields_list df = fst (obfuscate_fields_in_df df fields_list)"

text \<open>One record after the fields have been masked in list order, for the labels \<open>cols\<close>.\<close>

definition masked_record :: "string list \<Rightarrow> string list \<Rightarrow> cell list \<Rightarrow> cell list" where
  "masked_record cols fields_list r = foldl (\<lambda>r' f. set_in_row cols r' f mask_value) r fields_list"

text \<open>
  The groups of items that the loop of \<^verbatim>\<open>process_json_chunk\<close> hands to
  \<^verbatim>\<open>process_df_chunk\<close>, from the items that are left and the items gathered so far.  The
  last, shorter group is handed over only when the item iterator ends without an error
  (\<open>flush\<close>).
\<close>

fun group_items :: "int \<Rightarrow> bool \<Rightarrow> json_obj list \<Rightarrow> json_obj list \<Rightarrow> json_obj list list" where
  "group_items chunk_size flush [] chunk = (if flush \<and> chunk \<noteq> [] then [chunk] else [])"
| "group_items chunk_size flush (obj # objs) chunk =
     (let chunk' = chunk @ [obj]
      in if int (length chunk') = chunk_size then chunk' # group_items chunk_size flush objs []
         else group_items chunk_size flush objs chunk')"

text \<open>
  The batches that reach \<^verbatim>\<open>process_df_chunk\<close> in the streaming phase, and the exception
  the reader stops with, for a supported source format.
\<close>

definition batches_read :: "libs \<Rightarrow> string \<Rightarrow> string \<Rightarrow> int \<Rightarrow> dataframe gen" where
  "batches_read L file_content file_type chunk_size =
     (if file_type = ''csv'' then pd_read_csv_chunks L file_content chunk_size
      else if file_type = ''json''
      then (case ijson_items L file_content of
              (objs, stop) \<Rightarrow> (map pd_DataFrame (group_items chunk_size (stop = None) objs []), stop))
      else pq_iter_batches L file_content chunk_size)"

text \<open>
  The output key as the specification words it: the first occurrence of \<open>old\<close> replaced,
  the rest of the key kept.
\<close>

fun replace_first :: "string \<Rightarrow> string \<Rightarrow> string \<Rightarrow> string" where
  "replace_first [] old new = (if old = [] then new else [])"
| "replace_first (c # cs) old new =
     (if take (length old) (c # cs) = old then new @ drop (length old) (c # cs)
      else c # replace_first cs old new)"

section \<open>Sample contents\<close>

definition student_df :: dataframe where
  "student_df =
     \<lparr>columns = [''student_id'', ''name'', ''course'', ''graduation_date'', ''email_address''],
      rows = [[IntC 1234, StrC ''John Smith'', StrC ''Software'', StrC ''2024-03-31'',
               StrC ''j.smith@email.com'']]\<rparr>"

definition student_csv :: string where
  "student_csv =
     ''student_id,name,course,graduation_date,email_address'' @ [nl] @
     ''1234,John Smith,Software,2024-03-31,j.smith@email.com'' @ [nl]"


definition two_items :: string where
  \<open>two_items = ''[{"a": 1, "b": "x"}, {"a": null, "b": "y"}]''\<close>

definition student_csv_masked :: string where
  "student_csv_masked =
     ''student_id,name,course,graduation_date,email_address'' @ [nl] @
     ''1234,***,Software,2024-03-31,***'' @ [nl]"


definition two_texts :: string where
  \<open>two_texts = ''[{"a": "u", "b": "x"}, {"a": "v", "b": "y"}]''\<close>

definition descriptor_items :: string where
  \<open>descriptor_items = ''{"file_to_obfuscate": "s3://bkt/new_data/items.json", "pii_fields": ["b"]}''\<close>

definition descriptor_twice :: string where
  \<open>descriptor_twice = ''{"file_to_obfuscate": "s3://bkt/new_data/new_data.json", "pii_fields": ["b"]}''\<close>

definition descriptor_missing :: string where
  \<open>descriptor_missing = ''{"file_to_obfuscate": "s3://bkt/new_data/items.json", "pii_fields": ["c"]}''\<close>

definition sample_store :: s3 where
  "sample_store =
     [''bkt'' \<mapsto> [''new_data/items.json'' \<mapsto> two_texts, ''new_data/new_data.json'' \<mapsto> two_texts]]"

definition three_texts :: string where
  \<open>three_texts = ''[{"a": "u", "b": "x"}, {"a": "v", "b": "y"}, {"a": "w", "b": "z"}]''\<close>

definition three_rows_csv :: string where
  "three_rows_csv = ''a,b'' @ [nl] @ ''u,x'' @ [nl] @ ''v,y'' @ [nl] @ ''w,z'' @ [nl]"

definition three_objs :: "json_obj list" where
  "three_objs =
     [[(''a'', JStr ''u''), (''b'', JStr ''x'')],
      [(''a'', JStr ''v''), (''b'', JStr ''y'')],
      [(''a'', JStr ''w''), (''b'', JStr ''z'')]]"

definition text_cells :: "json_obj \<Rightarrow> cell list" where
  "text_cells obj = map (raw_cell obj) [''a'', ''b'']"

section \<open>Properties of the mask operation\<close>

lemma columns_setitem [simp]: "columns (setitem df f v) = columns df"
  by (simp add: setitem_def)

lemma length_rows_setitem [simp]: "length (rows (setitem df f v)) = length (rows df)"
  by (simp add: setitem_def)

lemma length_set_in_row [simp]: "length (set_in_row cs r f v) = length r"
  by (induction cs r f v rule: set_in_row.induct) auto

lemma nth_set_in_row:
  "length r = length cs \<Longrightarrow> j < length cs \<Longrightarrow>
   set_in_row cs r f v ! j = (if cs ! j = f then v else r ! j)"
  by (induction cs r f v arbitrary: j rule: set_in_row.induct) (auto simp: nth_Cons')

lemma wf_df_setitem: "wf_df df \<Longrightarrow> wf_df (setitem df f v)"
  by (simp add: wf_df_def setitem_def list_all_iff)

lemma nth_rows_setitem:
  "wf_df df \<Longrightarrow> i < length (rows df) \<Longrightarrow> j < length (columns df) \<Longrightarrow>
   rows (setitem df f v) ! i ! j = (if columns df ! j = f then v else rows df ! i ! j)"
  by (simp add: setitem_def wf_df_def list_all_iff nth_set_in_row)

lemma obfuscate_all_present:
  "wf_df df \<Longrightarrow> set fields_list \<subseteq> set (columns df) \<Longrightarrow>
   \<exists>df'. obfuscate_fields_in_df df fields_list = (df', None) \<and>
     columns df' = columns df \<and> length (rows df') = length (rows df) \<and> wf_df df' \<and>
     (\<forall>i < length (rows df). \<forall>j < length (columns df).
        rows df' ! i ! j = (if columns df ! j \<in> set fields_list then mask_value else rows df ! i ! j))"
proof (induction fields_list arbitrary: df)
  case Nil
  then show ?case by simp
next
  case (Cons f fs)
  let ?d = "setitem df f mask_value"
  from Cons.prems have wf: "wf_df ?d" and sub: "set fs \<subseteq> set (columns ?d)"
    by (simp_all add: wf_df_setitem)
  from Cons.IH [OF wf sub] obtain df' where
    run: "obfuscate_fields_in_df ?d fs = (df', None)" and
    cols: "columns df' = columns df" and len: "length (rows df') = length (rows df)" and
    wf': "wf_df df'" and
    cells: "\<forall>i < length (rows df). \<forall>j < length (columns df).
        rows df' ! i ! j = (if columns df ! j \<in> set fs then mask_value else rows ?d ! i ! j)"
    by auto
  have "obfuscate_fields_in_df df (f # fs) = (df', None)"
    using Cons.prems run by simp
  moreover have "\<forall>i < length (rows df). \<forall>j < length (columns df).
        rows df' ! i ! j = (if columns df ! j \<in> set (f # fs) then mask_value else rows df ! i ! j)"
    using cells Cons.prems(1) by (auto simp: nth_rows_setitem)
  ultimately show ?case using cols len wf' by blast
qed

lemma obfuscate_stops_at_missing:
  "set pre \<subseteq> set (columns df) \<Longrightarrow> missing \<notin> set (columns df) \<Longrightarrow>
   obfuscate_fields_in_df df (pre @ missing # post) =
     (fst (obfuscate_fields_in_df df pre), Some (field_not_found missing))"
  by (induction pre arbitrary: df) auto

text \<open>
  Claim C1.  When every listed field is a column of the batch, \<^verbatim>\<open>obfuscate_fields_in_df\<close>
  returns; the batch it returns has the same columns and the same number of records, every
  value of a listed column is the mask \<^verbatim>\<open>'***'\<close>, and every value of any other column is
  the value that was there.
\<close>

theorem C1_masking:
  assumes "wf_df df" and "set fields_list \<subseteq> set (columns df)"
  shows "\<exists>df'. obfuscate_fields_in_df df fields_list = (df', None) \<and>
     columns df' = columns df \<and> length (rows df') = length (rows df) \<and>
     (\<forall>i < length (rows df). \<forall>j < length (columns df).
        rows df' ! i ! j = (if columns df ! j \<in> set fields_list then StrC ''***'' else rows df ! i ! j))"
  using obfuscate_all_present [OF assms] unfolding mask_value_def by blast

theorem C1_masking_witness:
  "wf_df student_df \<and> set [''name'', ''email_address''] \<subseteq> set (columns student_df) \<and>
   obfuscate_fields_in_df student_df [''name'', ''email_address''] =
     (\<lparr>columns = [''student_id'', ''name'', ''course'', ''graduation_date'', ''email_address''],
       rows = [[IntC 1234, StrC ''***'', StrC ''Software'', StrC ''2024-03-31'', StrC ''***'']]\<rparr>, None)"
proof -
  have wf: "wf_df student_df"
    by (simp add: wf_df_def student_df_def)
  have sub: "set [''name'', ''email_address''] \<subseteq> set (columns student_df)"
    by (simp add: student_df_def)
  show ?thesis
    using wf sub C1_masking [OF wf sub]
    by (simp add: student_df_def setitem_def mask_value_def)
qed

text \<open>
  Claim C10.  The fields are handled in list order on the caller's batch.  When a field is
  not a column, the call ends with the \<^verbatim>\<open>KeyError\<close> for that field, and the batch is left
  with every column named earlier in the list already masked: it differs from the batch
  that was passed in as soon as one of those columns held a value other than the mask.
\<close>

theorem C10_masked_before_error:
  assumes "wf_df df" and "set pre \<subseteq> set (columns df)" and "missing \<notin> set (columns df)"
  shows "\<exists>df'. obfuscate_fields_in_df df (pre @ missing # post) = (df', Some (field_not_found missing)) \<and>
     columns df' = columns df \<and> length (rows df') = length (rows df) \<and>
     (\<forall>i < length (rows df). \<forall>j < length (columns df).
        rows df' ! i ! j = (if columns df ! j \<in> set pre then mask_value else rows df ! i ! j)) \<and>
     ((\<exists>i < length (rows df). \<exists>j < length (columns df).
         columns df ! j \<in> set pre \<and> rows df ! i ! j \<noteq> mask_value) \<longrightarrow> df' \<noteq> df)"
proof -
  from obfuscate_all_present [OF assms(1,2)] obtain df' where
    run: "obfuscate_fields_in_df df pre = (df', None)" and
    cols: "columns df' = columns df" and len: "length (rows df') = length (rows df)" and
    cells: "\<forall>i < length (rows df). \<forall>j < length (columns df).
        rows df' ! i ! j = (if columns df ! j \<in> set pre then mask_value else rows df ! i ! j)"
    by blast
  have "obfuscate_fields_in_df df (pre @ missing # post) = (df', Some (field_not_found missing))"
    using obfuscate_stops_at_missing [OF assms(2,3)] run by simp
  moreover have "df' \<noteq> df"
    if "\<exists>i < length (rows df). \<exists>j < length (columns df).
         columns df ! j \<in> set pre \<and> rows df ! i ! j \<noteq> mask_value"
    using that cells by force
  ultimately show ?thesis using cols len cells by blast
qed

theorem C10_masked_before_error_witness:
  "wf_df student_df \<and> set [''name''] \<subseteq> set (columns student_df) \<and>
   ''cohort'' \<notin> set (columns student_df) \<and>
   obfuscate_fields_in_df student_df ([''name''] @ ''cohort'' # []) =
     (\<lparr>columns = [''student_id'', ''name'', ''course'', ''graduation_date'', ''email_address''],
       rows = [[IntC 1234, StrC ''***'', StrC ''Software'', StrC ''2024-03-31'',
                StrC ''j.smith@email.com'']]\<rparr>,
      Some (KeyError (''Field '' @ [sq] @ ''cohort'' @ [sq] @ '' notfound in the data.''))) \<and>
   fst (obfuscate_fields_in_df student_df ([''name''] @ ''cohort'' # [])) \<noteq> student_df"
proof -
  have wf: "wf_df student_df"
    by (simp add: wf_df_def student_df_def)
  have sub: "set [''name''] \<subseteq> set (columns student_df)"
    by (simp add: student_df_def)
  have missing: "''cohort'' \<notin> set (columns student_df)"
    by (simp add: student_df_def)
  show ?thesis
    using wf sub missing C10_masked_before_error [OF wf sub missing, of "[]"]
    by (simp add: student_df_def setitem_def mask_value_def field_not_found_def)
qed

section \<open>Properties of the streaming phase\<close>

lemma json_loop_chunk_loop:
  "json_loop fs n objs stop chunk first out =
   chunk_loop fs (map pd_DataFrame (group_items n (stop = None) objs chunk)) stop first out"
proof (induction objs arbitrary: chunk first out)
  case Nil
  show ?case by (cases stop) (auto split: sum.splits)
next
  case (Cons obj objs)
  show ?case by (simp add: Let_def Cons.IH split: sum.splits)
qed

lemma streaming_phase:
  "file_type \<in> set supported_formats \<Longrightarrow>
   convert_str_file_content_to_obfuscated_csv L content fs file_type n =
     (case batches_read L content file_type n of
        (bs, stop) \<Rightarrow>
          (case chunk_loop fs bs stop True new_bytesio of
             Inl e \<Rightarrow> Inl e | Inr out \<Rightarrow> Inr (bio_seek out 0)))"
  by (auto simp: convert_str_file_content_to_obfuscated_csv_def batches_read_def
      process_json_chunk_def process_parquet_chunk_def json_loop_chunk_loop supported_formats_def
      split: prod.splits)

lemma obfuscate_returns:
  "set fs \<subseteq> set (columns df) \<Longrightarrow>
   snd (obfuscate_fields_in_df df fs) = None \<and> columns (fst (obfuscate_fields_in_df df fs)) = columns df"
  by (induction fs arbitrary: df) auto

lemma obfuscate_raises:
  "\<not> set fs \<subseteq> set (columns df) \<Longrightarrow>
   \<exists>f \<in> set fs. f \<notin> set (columns df) \<and> snd (obfuscate_fields_in_df df fs) = Some (field_not_found f)"
proof (induction fs arbitrary: df)
  case Nil
  then show ?case by simp
next
  case (Cons a fs)
  show ?case
  proof (cases "a \<in> set (columns df)")
    case True
    with Cons.prems have "\<not> set fs \<subseteq> set (columns (setitem df a mask_value))" by simp
    from Cons.IH [OF this] show ?thesis using True by auto
  next
    case False
    then show ?thesis by simp
  qed
qed

lemma process_df_chunk_returns:
  "set fs \<subseteq> set (columns df) \<Longrightarrow>
   process_df_chunk df fs out first = Inr (bio_write out (to_csv (masked fs df) first))"
  using obfuscate_returns [of fs df]
  by (auto simp: process_df_chunk_def masked_def split: prod.splits option.splits)

lemma process_df_chunk_raises:
  "\<not> set fs \<subseteq> set (columns df) \<Longrightarrow>
   \<exists>f \<in> set fs. f \<notin> set (columns df) \<and> process_df_chunk df fs out first = Inl (field_not_found f)"
  using obfuscate_raises [of fs df]
  by (auto simp: process_df_chunk_def split: prod.splits option.splits)

lemma bio_write_at_end:
  "pos out = length (getvalue out) \<Longrightarrow>
   bio_write out s = \<lparr>getvalue = getvalue out @ s, pos = length (getvalue out @ s)\<rparr>"
  by (simp add: bio_write_def)

lemma chunk_loop_later:
  "\<forall>b \<in> set bs. set fs \<subseteq> set (columns b) \<Longrightarrow> pos out = length (getvalue out) \<Longrightarrow>
   chunk_loop fs bs None False out =
     Inr \<lparr>getvalue = getvalue out @ concat (map (\<lambda>b. csv_body (masked fs b)) bs),
          pos = length (getvalue out @ concat (map (\<lambda>b. csv_body (masked fs b)) bs))\<rparr>"
proof (induction bs arbitrary: out)
  case Nil
  then show ?case by simp
next
  case (Cons b bs)
  let ?out = "bio_write out (to_csv (masked fs b) False)"
  have step: "process_df_chunk b fs out False = Inr ?out"
    using Cons.prems(1) by (simp add: process_df_chunk_returns)
  have out': "?out = \<lparr>getvalue = getvalue out @ csv_body (masked fs b),
                      pos = length (getvalue out @ csv_body (masked fs b))\<rparr>"
    using Cons.prems(2) by (simp add: bio_write_at_end to_csv_def)
  have "chunk_loop fs bs None False ?out =
     Inr \<lparr>getvalue = getvalue ?out @ concat (map (\<lambda>b. csv_body (masked fs b)) bs),
          pos = length (getvalue ?out @ concat (map (\<lambda>b. csv_body (masked fs b)) bs))\<rparr>"
    using Cons.prems(1) by (intro Cons.IH) (simp_all add: out')
  then show ?case using step by (simp add: out')
qed

lemma chunk_loop_first:
  assumes "\<forall>b \<in> set (b0 # bs). set fs \<subseteq> set (columns b)"
  shows "chunk_loop fs (b0 # bs) None True new_bytesio =
     Inr \<lparr>getvalue = csv_line (columns b0) @ concat (map (\<lambda>b. csv_body (masked fs b)) (b0 # bs)),
          pos = length (csv_line (columns b0) @ concat (map (\<lambda>b. csv_body (masked fs b)) (b0 # bs)))\<rparr>"
proof -
  let ?out = "bio_write new_bytesio (to_csv (masked fs b0) True)"
  have cols: "columns (masked fs b0) = columns b0"
    using assms obfuscate_returns [of fs b0] by (simp add: masked_def)
  have step: "process_df_chunk b0 fs new_bytesio True = Inr ?out"
    using assms by (simp add: process_df_chunk_returns)
  have out': "?out = \<lparr>getvalue = csv_line (columns b0) @ csv_body (masked fs b0),
                      pos = length (csv_line (columns b0) @ csv_body (masked fs b0))\<rparr>"
    by (simp add: bio_write_def new_bytesio_def to_csv_def cols)
  have "chunk_loop fs bs None False ?out =
     Inr \<lparr>getvalue = getvalue ?out @ concat (map (\<lambda>b. csv_body (masked fs b)) bs),
          pos = length (getvalue ?out @ concat (map (\<lambda>b. csv_body (masked fs b)) bs))\<rparr>"
    using assms by (intro chunk_loop_later) (simp_all add: out')
  then show ?thesis using step by (simp add: out')
qed

lemma chunk_loop_raises:
  "\<exists>b \<in> set bs. \<not> set fs \<subseteq> set (columns b) \<Longrightarrow>
   \<exists>f \<in> set fs. (\<exists>b \<in> set bs. f \<notin> set (columns b)) \<and>
     chunk_loop fs bs stop first out = Inl (field_not_found f)"
proof (induction bs arbitrary: first out)
  case Nil
  then show ?case by simp
next
  case (Cons b bs)
  show ?case
  proof (cases "set fs \<subseteq> set (columns b)")
    case True
    with Cons.prems have "\<exists>b \<in> set bs. \<not> set fs \<subseteq> set (columns b)" by auto
    from Cons.IH [OF this] show ?thesis
      using True by (simp add: process_df_chunk_returns) blast
  next
    case False
    from process_df_chunk_raises [OF False, of out first] show ?thesis by auto
  qed
qed

lemma obfuscate_outcome_by_columns:
  "columns df = columns df' \<Longrightarrow>
   snd (obfuscate_fields_in_df df fs) = snd (obfuscate_fields_in_df df' fs)"
proof (induction fs arbitrary: df df')
  case Nil
  then show ?case by simp
next
  case (Cons f fs)
  have "columns (setitem df f mask_value) = columns (setitem df' f mask_value)"
    using Cons.prems by simp
  from Cons.IH [OF this] show ?case using Cons.prems by simp
qed

lemma rows_masked:
  "set fs \<subseteq> set (columns df) \<Longrightarrow>
   rows (masked fs df) = map (masked_record (columns df) fs) (rows df)"
proof (induction fs arbitrary: df)
  case Nil
  then show ?case by (simp add: masked_def masked_record_def)
next
  case (Cons f fs)
  let ?d = "setitem df f mask_value"
  have "rows (masked fs ?d) = map (masked_record (columns ?d) fs) (rows ?d)"
    using Cons.prems by (intro Cons.IH) simp
  then show ?case using Cons.prems
    by (simp add: masked_def masked_record_def setitem_def)
qed

lemma csv_body_masked:
  "set fs \<subseteq> set (columns df) \<Longrightarrow>
   csv_body (masked fs df) =
     concat (map (\<lambda>r. csv_line (map cell_text (masked_record (columns df) fs r))) (rows df))"
  by (simp add: csv_body_def rows_masked comp_def)

lemma csv_bodies_masked:
  "\<forall>b \<in> set bs. columns b = cols \<Longrightarrow> set fs \<subseteq> set cols \<Longrightarrow>
   concat (map (\<lambda>b. csv_body (masked fs b)) bs) =
     concat (map (\<lambda>r. csv_line (map cell_text (masked_record cols fs r))) (concat (map rows bs)))"
  by (induction bs) (auto simp: csv_body_masked)

lemma chunk_loop_first_raises:
  "\<not> set fs \<subseteq> set (columns b) \<Longrightarrow>
   chunk_loop fs (b # bs) stop first out =
     Inl (the (snd (obfuscate_fields_in_df b fs)))"
  using obfuscate_raises [of fs b]
  by (auto simp: process_df_chunk_def split: prod.splits option.splits)

lemma streaming_phase_same_table:
  assumes ft: "file_type \<in> set supported_formats"
    and n: "batches_read L content file_type n = (bs, None)"
    and m: "batches_read L content file_type m = (bs', None)"
    and ne: "bs \<noteq> []" "bs' \<noteq> []"
    and cols: "\<forall>b \<in> set bs \<union> set bs'. columns b = cols"
    and same: "concat (map rows bs) = concat (map rows bs')"
  shows "convert_str_file_content_to_obfuscated_csv L content fs file_type n =
         convert_str_file_content_to_obfuscated_csv L content fs file_type m"
proof -
  from ne obtain b rest b' rest' where bs: "bs = b # rest" and bs': "bs' = b' # rest'"
    by (cases bs; cases bs') auto
  have cb: "columns b = cols" "columns b' = cols"
    using cols bs bs' by auto
  show ?thesis
  proof (cases "set fs \<subseteq> set cols")
    case True
    then have ok: "\<forall>x \<in> set (b # rest). set fs \<subseteq> set (columns x)"
      "\<forall>x \<in> set (b' # rest'). set fs \<subseteq> set (columns x)"
      using cols bs bs' by auto
    have "concat (map (\<lambda>b. csv_body (masked fs b)) bs) = concat (map (\<lambda>b. csv_body (masked fs b)) bs')"
      using cols True same by (simp add: csv_bodies_masked [of _ cols])
    then show ?thesis
      using ft n m chunk_loop_first [OF ok(1)] chunk_loop_first [OF ok(2)] cb
      by (simp add: streaming_phase bs bs')
  next
    case False
    then have miss: "\<not> set fs \<subseteq> set (columns b)" "\<not> set fs \<subseteq> set (columns b')"
      using cb by auto
    have "snd (obfuscate_fields_in_df b fs) = snd (obfuscate_fields_in_df b' fs)"
      using cb by (intro obfuscate_outcome_by_columns) simp
    then have "chunk_loop fs bs None True new_bytesio = chunk_loop fs bs' None True new_bytesio"
      unfolding bs bs' chunk_loop_first_raises [OF miss(1)] chunk_loop_first_raises [OF miss(2)]
      by simp
    then show ?thesis using ft n m by (simp add: streaming_phase)
  qed
qed

section \<open>Properties of the entry point and of the output key\<close>

lemma str_replace_no_occurrence:
  "old \<noteq> [] \<Longrightarrow> \<not> occurs_in old s \<Longrightarrow> str_replace s old new = s"
proof (induction s)
  case Nil
  then show ?case by (simp add: str_replace.simps)
next
  case (Cons c cs)
  then show ?case by (subst str_replace.simps) simp
qed

lemma take_old_prefix:
  assumes "old \<noteq> []"
  shows "take (length old) ((c # p) @ old @ post) = take (length old) ((c # p) @ butlast old)"
proof -
  from assms obtain b l where old: "old = b @ [l]"
    by (cases old rule: rev_cases) auto
  show ?thesis by (simp add: old)
qed

lemma str_replace_first_occurrence:
  "old \<noteq> [] \<Longrightarrow> \<not> occurs_in old (pre @ butlast old) \<Longrightarrow>
   str_replace (pre @ old @ post) old new = pre @ new @ str_replace post old new"
proof (induction pre)
  case Nil
  then show ?case by (subst str_replace.simps) simp
next
  case (Cons c p)
  from Cons.prems have no: "take (length old) ((c # p) @ butlast old) \<noteq> old"
    and rest: "\<not> occurs_in old (p @ butlast old)"
    by simp_all
  have "take (length old) ((c # p) @ old @ post) \<noteq> old"
    using no take_old_prefix [OF Cons.prems(1), of c p post] by simp
  then have "str_replace ((c # p) @ old @ post) old new = c # str_replace (p @ old @ post) old new"
    using Cons.prems(1) by (subst str_replace.simps) simp
  then show ?case using Cons.IH [OF Cons.prems(1) rest] by simp
qed

lemma replace_first_first_occurrence:
  "old \<noteq> [] \<Longrightarrow> \<not> occurs_in old (pre @ butlast old) \<Longrightarrow>
   replace_first (pre @ old @ post) old new = pre @ new @ post"
proof (induction pre)
  case Nil
  then show ?case by (cases old) auto
next
  case (Cons c p)
  from Cons.prems have no: "take (length old) ((c # p) @ butlast old) \<noteq> old"
    and rest: "\<not> occurs_in old (p @ butlast old)"
    by simp_all
  have "take (length old) ((c # p) @ old @ post) \<noteq> old"
    using no take_old_prefix [OF Cons.prems(1), of c p post] by simp
  then show ?case using Cons.IH [OF Cons.prems(1) rest] by simp
qed

lemma write_error_keeps_store:
  assumes "fst (write_s3_file L store b k c) = Inl e"
  shows "snd (write_s3_file L store b k c) = store"
proof (cases "write_s3_file_try L store b k c")
  case (Inl err)
  then show ?thesis by (cases err) (simp_all add: write_s3_file_def)
next
  case (Inr s')
  then show ?thesis using assms by (simp add: write_s3_file_def)
qed

lemma handle_error_keeps_store:
  assumes "fst (handle_file_obfuscation_try L store js d fmt n save) = Inl e"
  shows "snd (handle_file_obfuscation_try L store js d fmt n save) = store"
proof (cases "json_input_handler L js")
  case (Inl a)
  then show ?thesis by (simp add: handle_file_obfuscation_try_def)
next
  case (Inr r)
  obtain bucket key fs where r: "r = (bucket, key, fs)" by (cases r) auto
  show ?thesis
  proof (cases "read_s3_file L store bucket key")
    case (Inl a)
    then show ?thesis using Inr r by (simp add: handle_file_obfuscation_try_def)
  next
    case read: (Inr cr)
    obtain content ext where cr: "cr = (content, ext)" by (cases cr) auto
    show ?thesis
    proof (cases "obfuscate_file L content fs ext (if d then fmt else None) n")
      case (Inl a)
      then show ?thesis using Inr r read cr
        by (cases d) (simp_all add: handle_file_obfuscation_try_def)
    next
      case ob: (Inr buf)
      show ?thesis
      proof (cases save)
        case False
        then show ?thesis using Inr r read cr ob assms
          by (cases d) (simp_all add: handle_file_obfuscation_try_def)
      next
        case True
        let ?w = "write_s3_file L store bucket (str_replace key ''new_data'' ''processed_data'') buf"
        have run: "handle_file_obfuscation_try L store js d fmt n save =
            (case ?w of (Inl e, s') \<Rightarrow> (Inl e, s')
             | (Inr x, s') \<Rightarrow> (Inr (Saved (''Obfuscated file saved to s3://'' @ bucket @ ''/'' @
                 str_replace key ''new_data'' ''processed_data'')), s'))"
          using Inr r read cr ob True
          by (cases d) (simp_all add: handle_file_obfuscation_try_def Let_def)
        obtain res s' where w: "?w = (res, s')" by (cases ?w) auto
        show ?thesis
        proof (cases res)
          case (Inl a)
          then have "s' = store"
            using write_error_keeps_store [of L store bucket "str_replace key ''new_data'' ''processed_data''" buf a] w
            by simp
          then show ?thesis using run w Inl by simp
        next
          case (Inr a)
          then show ?thesis using run w assms by simp
        qed
      qed
    qed
  qed
qed

section \<open>Properties of the JSON writer\<close>












section \<open>The claims about the pipeline\<close>

lemma obfuscate_file_keyerror:
  "obfuscate_file_try L c fs ft fmt n = Inl (KeyError a) \<Longrightarrow>
   obfuscate_file L c fs ft fmt n = Inl (KeyError (''Error processing data chunk: '' @ py_repr a))"
  by (simp add: obfuscate_file_def)

lemma json_loop_nonpositive:
  "n \<le> 0 \<Longrightarrow>
   json_loop fs n objs stop chunk first out =
     (case stop of
        Some e \<Rightarrow> Inl e
      | None \<Rightarrow> if chunk @ objs \<noteq> [] then process_df_chunk (pd_DataFrame (chunk @ objs)) fs out first
                else Inr out)"
  by (induction objs arbitrary: chunk) (auto simp: Let_def split: option.splits)

lemma concat_group_items:
  "concat (group_items n True objs chunk) = chunk @ objs"
  by (induction objs arbitrary: chunk) (auto simp: Let_def)

lemma group_items_nonempty:
  "g \<in> set (group_items n flush objs chunk) \<Longrightarrow> g \<noteq> []"
  by (induction objs arbitrary: chunk) (auto simp: Let_def split: if_splits)

lemma group_items_Nil:
  "group_items n True objs [] = [] \<longleftrightarrow> objs = []"
proof
  assume "group_items n True objs [] = []"
  then have "concat (group_items n True objs []) = []" by simp
  then show "objs = []" by (simp add: concat_group_items)
next
  assume "objs = []"
  then show "group_items n True objs [] = []" by simp
qed

lemma json_batches_typed_alike:
  assumes "\<forall>g \<in> set gs. pd_DataFrame g = \<lparr>columns = cols, rows = map cells g\<rparr>"
  shows "(\<forall>b \<in> set (map pd_DataFrame gs). columns b = cols) \<and>
         concat (map rows (map pd_DataFrame gs)) = map cells (concat gs)"
  using assms by (induction gs) auto

lemma json_source_same_output:
  assumes ft: "file_type = ''json''"
    and items: "ijson_items L content = (objs, None)"
    and typed: "\<forall>g \<in> set (group_items n True objs []) \<union> set (group_items m True objs []).
                  pd_DataFrame g = \<lparr>columns = cols, rows = map cells g\<rparr>"
  shows "convert_str_file_content_to_obfuscated_csv L content fs file_type n =
         convert_str_file_content_to_obfuscated_csv L content fs file_type m"
proof -
  let ?gn = "group_items n True objs []" and ?gm = "group_items m True objs []"
  have sup: "file_type \<in> set supported_formats"
    by (simp add: ft supported_formats_def)
  have bn: "batches_read L content file_type n = (map pd_DataFrame ?gn, None)"
    and bm: "batches_read L content file_type m = (map pd_DataFrame ?gm, None)"
    using items by (simp_all add: batches_read_def ft)
  show ?thesis
  proof (cases "objs = []")
    case True
    then show ?thesis using bn bm sup by (simp add: streaming_phase)
  next
    case False
    then have ne: "map pd_DataFrame ?gn \<noteq> []" "map pd_DataFrame ?gm \<noteq> []"
      by (simp_all add: group_items_Nil)
    have tn: "\<forall>g \<in> set ?gn. pd_DataFrame g = \<lparr>columns = cols, rows = map cells g\<rparr>"
      and tm: "\<forall>g \<in> set ?gm. pd_DataFrame g = \<lparr>columns = cols, rows = map cells g\<rparr>"
      using typed by auto
    have cols: "\<forall>b \<in> set (map pd_DataFrame ?gn) \<union> set (map pd_DataFrame ?gm). columns b = cols"
      using json_batches_typed_alike [OF tn] json_batches_typed_alike [OF tm] by auto
    have "concat (map rows (map pd_DataFrame ?gn)) = map cells objs"
      using json_batches_typed_alike [OF tn] by (simp add: concat_group_items)
    moreover have "concat (map rows (map pd_DataFrame ?gm)) = map cells objs"
      using json_batches_typed_alike [OF tm] by (simp add: concat_group_items)
    ultimately have same: "concat (map rows (map pd_DataFrame ?gn)) = concat (map rows (map pd_DataFrame ?gm))"
      by simp
    show ?thesis
      by (rule streaming_phase_same_table [OF sup bn bm ne cols same])
  qed
qed

lemma three_items: "ijson_items fragment three_texts = (three_objs, None)"
  by code_simp

lemma three_typed:
  "list_all (\<lambda>g. pd_DataFrame g = \<lparr>columns = [''a'', ''b''], rows = map text_cells g\<rparr>)
     (group_items 1 True three_objs [] @ group_items 2 True three_objs [] @
      group_items 3 True three_objs [] @ group_items 7 True three_objs [])"
  by code_simp

lemma three_full:
  "obfuscate_file fragment three_texts [''b''] ''json'' (Some ''csv'') 3 =
     Inr \<lparr>getvalue = ''a,b'' @ [nl] @ ''u,***'' @ [nl] @ ''v,***'' @ [nl] @ ''w,***'' @ [nl], pos = 0\<rparr>"
  by code_simp

lemma three_rows_2:
  "batches_read fragment three_rows_csv (str_lower ''csv'') 2 =
     ([\<lparr>columns = [''a'', ''b''], rows = [[StrC ''u'', StrC ''x''], [StrC ''v'', StrC ''y'']]\<rparr>,
       \<lparr>columns = [''a'', ''b''], rows = [[StrC ''w'', StrC ''z'']]\<rparr>], None)"
  by code_simp

lemma three_rows_3:
  "batches_read fragment three_rows_csv (str_lower ''csv'') 3 =
     ([\<lparr>columns = [''a'', ''b''],
        rows = [[StrC ''u'', StrC ''x''], [StrC ''v'', StrC ''y''], [StrC ''w'', StrC ''z'']]\<rparr>], None)"
  by code_simp

lemma two_items_chunk_1:
  "obfuscate_file fragment two_items [''b''] ''json'' (Some ''csv'') 1 =
     Inr \<lparr>getvalue = ''a,b'' @ [nl] @ ''1,***'' @ [nl] @ '',***'' @ [nl], pos = 0\<rparr>"
  by code_simp

lemma two_items_chunk_2:
  "obfuscate_file fragment two_items [''b''] ''json'' (Some ''csv'') 2 =
     Inr \<lparr>getvalue = ''a,b'' @ [nl] @ ''1.0,***'' @ [nl] @ '',***'' @ [nl], pos = 0\<rparr>"
  by code_simp

lemma missing_c_try:
  "obfuscate_file_try fragment two_texts [''c''] ''json'' None 5000 =
     Inl (KeyError (''Field '' @ [sq] @ ''c'' @ [sq] @ '' notfound in the data.''))"
  by code_simp

lemma missing_c_handler_try:
  "fst (handle_file_obfuscation_try fragment sample_store descriptor_missing False None 5000 True) =
     Inl (KeyError (''Error processing data chunk: '' @ [dq] @ ''Field '' @ [sq] @ ''c'' @ [sq] @
            '' notfound in the data.'' @ [dq]))"
  by code_simp

lemma ev_handler: "json_input_handler fragment descriptor_items = Inr (''bkt'', ''new_data/items.json'', [''b''])"
  by code_simp

lemma ev_read: "read_s3_file fragment sample_store ''bkt'' ''new_data/items.json'' = Inr (two_texts, ''json'')"
  by code_simp

lemma ev_obfuscate:
  \<open>obfuscate_file fragment two_texts [''b''] ''json'' None 5000 =
     Inr \<lparr>getvalue = ''{"a":"u","b":"***"}'' @ [nl] @ ''{"a":"v","b":"***"}'' @ [nl], pos = 0\<rparr>\<close>
  by code_simp

lemma ev_key: "str_replace ''new_data/items.json'' ''new_data'' ''processed_data'' = ''processed_data/items.json''"
  by code_simp

lemma ev_write:
  \<open>fst (write_s3_file fragment sample_store ''bkt'' ''processed_data/items.json''
      \<lparr>getvalue = ''{"a":"u","b":"***"}'' @ [nl] @ ''{"a":"v","b":"***"}'' @ [nl], pos = 0\<rparr>) =
     Inr ''processed_data/items.json has been successfully uploaded to s3 bucket bkt''\<close>
  by code_simp

text \<open>
  Claim C2, amended.  For a supported source format, as soon as one batch that reaches the
  mask step lacks a listed field, \<^verbatim>\<open>obfuscate_file\<close> ends with a \<^verbatim>\<open>KeyError\<close>: its message
  is the label \<^verbatim>\<open>Error processing data chunk: \<close> followed by the quoted text that names a
  listed field absent from a batch, and no buffer is returned.  This covers every input
  with at least one batch whose columns are the columns of the data.
\<close>

theorem C2_missing_field:
  assumes "str_lower file_type \<in> set supported_formats"
    and "batches_read L file_content (str_lower file_type) chunk_size = (bs, stop)"
    and "\<exists>b \<in> set bs. \<not> set fields_list \<subseteq> set (columns b)"
  shows "\<exists>f \<in> set fields_list. (\<exists>b \<in> set bs. f \<notin> set (columns b)) \<and>
     obfuscate_file L file_content fields_list file_type output_format chunk_size =
       Inl (KeyError (''Error processing data chunk: '' @
              py_repr (''Field '' @ [sq] @ f @ [sq] @ '' notfound in the data.'')))"
proof -
  from chunk_loop_raises [OF assms(3), of stop True new_bytesio] obtain f where
    f: "f \<in> set fields_list" "\<exists>b \<in> set bs. f \<notin> set (columns b)" and
    loop: "chunk_loop fields_list bs stop True new_bytesio = Inl (field_not_found f)"
    by blast
  have "convert_str_file_content_to_obfuscated_csv L file_content fields_list (str_lower file_type) chunk_size
      = Inl (field_not_found f)"
    using assms(1,2) loop by (simp add: streaming_phase)
  then have "obfuscate_file_try L file_content fields_list file_type output_format chunk_size
      = Inl (KeyError (''Field '' @ [sq] @ f @ [sq] @ '' notfound in the data.''))"
    by (simp add: obfuscate_file_try_def field_not_found_def)
  from obfuscate_file_keyerror [OF this] f show ?thesis by blast
qed

theorem C2_missing_field_witness:
  "str_lower ''csv'' \<in> set supported_formats \<and>
   batches_read fragment student_csv (str_lower ''csv'') 5000 = ([student_df], None) \<and>
   (\<exists>b \<in> set [student_df]. \<not> set [''name'', ''cohort''] \<subseteq> set (columns b)) \<and>
   obfuscate_file fragment student_csv [''name'', ''cohort''] ''csv'' None 5000 =
     Inl (KeyError (''Error processing data chunk: '' @ [dq] @ ''Field '' @ [sq] @ ''cohort'' @ [sq] @
            '' notfound in the data.'' @ [dq]))"
proof -
  have h1: "str_lower ''csv'' \<in> set supported_formats"
    by code_simp
  have h2: "batches_read fragment student_csv (str_lower ''csv'') 5000 = ([student_df], None)"
    by code_simp
  have h3: "\<exists>b \<in> set [student_df]. \<not> set [''name'', ''cohort''] \<subseteq> set (columns b)"
    by (simp add: student_df_def)
  have r: "py_repr (''Field '' @ [sq] @ ''cohort'' @ [sq] @ '' notfound in the data.'') =
      [dq] @ ''Field '' @ [sq] @ ''cohort'' @ [sq] @ '' notfound in the data.'' @ [dq]"
    by code_simp
  have "\<exists>f \<in> set [''name'', ''cohort'']. (\<exists>b \<in> set [student_df]. f \<notin> set (columns b)) \<and>
     obfuscate_file fragment student_csv [''name'', ''cohort''] ''csv'' None 5000 =
       Inl (KeyError (''Error processing data chunk: '' @
              py_repr (''Field '' @ [sq] @ f @ [sq] @ '' notfound in the data.'')))"
    by (rule C2_missing_field [OF h1 h2 h3])
  then have "obfuscate_file fragment student_csv [''name'', ''cohort''] ''csv'' None 5000 =
       Inl (KeyError (''Error processing data chunk: '' @
              py_repr (''Field '' @ [sq] @ ''cohort'' @ [sq] @ '' notfound in the data.'')))"
    by (auto simp: student_df_def)
  then show ?thesis using h1 h2 h3 r by simp
qed

text \<open>
  The claim as stated asks for the failure on every input.  An empty JSON array gives no
  batch, so no field is ever looked up: with the field \<^verbatim>\<open>name\<close> and the target \<^verbatim>\<open>csv\<close> the
  call returns an empty buffer.
\<close>

theorem C2_empty_array_counterexample:
  "fst (batches_read fragment ''[]'' ''json'' 5000) = [] \<and>
   obfuscate_file fragment ''[]'' [''name''] ''json'' (Some ''csv'') 5000 =
     Inr \<lparr>getvalue = [], pos = 0\<rparr>"
  by code_simp

text \<open>
  Claim C3, amended.  When the streaming phase succeeds on a supported source format, the
  buffer it returns is empty if the reader gave no batch; otherwise it is the header line
  of the first batch, once, followed by the record lines of every batch in order.  No
  later batch adds a header.
\<close>

theorem C3_header_once:
  assumes "file_type \<in> set supported_formats"
    and "batches_read L file_content file_type chunk_size = (bs, None)"
    and "\<forall>b \<in> set bs. set fields_list \<subseteq> set (columns b)"
  shows "convert_str_file_content_to_obfuscated_csv L file_content fields_list file_type chunk_size =
     Inr \<lparr>getvalue = (case bs of [] \<Rightarrow> []
                       | b # rest \<Rightarrow> csv_line (columns b) @
                           concat (map (\<lambda>b. csv_body (masked fields_list b)) (b # rest))),
          pos = 0\<rparr>"
proof (cases bs)
  case Nil
  then show ?thesis using assms(1,2)
    by (simp add: streaming_phase bio_seek_def new_bytesio_def)
next
  case (Cons b rest)
  then show ?thesis using assms chunk_loop_first [of b rest fields_list]
    by (simp add: streaming_phase bio_seek_def)
qed

theorem C3_header_once_witness:
  "''json'' \<in> set supported_formats \<and>
   batches_read fragment two_texts ''json'' 1 =
     ([\<lparr>columns = [''a'', ''b''], rows = [[StrC ''u'', StrC ''x'']]\<rparr>,
       \<lparr>columns = [''a'', ''b''], rows = [[StrC ''v'', StrC ''y'']]\<rparr>], None) \<and>
   (\<forall>b \<in> set [\<lparr>columns = [''a'', ''b''], rows = [[StrC ''u'', StrC ''x'']]\<rparr>,
                 \<lparr>columns = [''a'', ''b''], rows = [[StrC ''v'', StrC ''y'']]\<rparr>].
      set [''b''] \<subseteq> set (columns b)) = True \<and>
   convert_str_file_content_to_obfuscated_csv fragment two_texts [''b''] ''json'' 1 =
     Inr \<lparr>getvalue = ''a,b'' @ [nl] @ ''u,***'' @ [nl] @ ''v,***'' @ [nl], pos = 0\<rparr>"
proof -
  let ?bs = "[\<lparr>columns = [''a'', ''b''], rows = [[StrC ''u'', StrC ''x'']]\<rparr>,
              \<lparr>columns = [''a'', ''b''], rows = [[StrC ''v'', StrC ''y'']]\<rparr>]"
  have h1: "''json'' \<in> set supported_formats"
    by (simp add: supported_formats_def)
  have h2: "batches_read fragment two_texts ''json'' 1 = (?bs, None)"
    by code_simp
  have h3: "\<forall>b \<in> set ?bs. set [''b''] \<subseteq> set (columns b)"
    by simp
  have v: "(case ?bs of [] \<Rightarrow> []
            | b # rest \<Rightarrow> csv_line (columns b) @ concat (map (\<lambda>b. csv_body (masked [''b''] b)) (b # rest)))
         = ''a,b'' @ [nl] @ ''u,***'' @ [nl] @ ''v,***'' @ [nl]"
    by code_simp
  show ?thesis
    using h1 h2 h3 C3_header_once [OF h1 h2 h3] unfolding v by simp
qed

text \<open>
  The claim as stated asks for exactly one header line for every row count.  For an empty
  JSON array the streaming phase returns the empty buffer: no header line at all.
\<close>

theorem C3_empty_array_counterexample:
  "convert_str_file_content_to_obfuscated_csv fragment ''[]'' [] ''json'' 1 =
     Inr \<lparr>getvalue = [], pos = 0\<rparr>"
  by code_simp

text \<open>
  Claim C4, amended.  For a JSON source whose item iterator ends without an error, take
  any two chunk sizes.  If pandas gives every group of items formed at these sizes one
  and the same list of columns and gives every record the same cells in whatever group it
  stands, then \<^verbatim>\<open>obfuscate_file\<close> gives the same result for the two chunk sizes; that
  the groups hold every item once and in order, the last and shorter group included, is
  proved from the loop of \<^verbatim>\<open>process_json_chunk\<close>.  For a CSV or Parquet source the batches
  are the library's: when for the two sizes the reader ends without an error and gives at
  least one batch, all with one list of columns and, put together, the same records, the
  result is the same.
\<close>

theorem C4_chunk_size_invariance:
  "(str_lower file_type = ''json'' \<longrightarrow>
      ijson_items L file_content = (objs, None) \<longrightarrow>
      (\<forall>g \<in> set (group_items n True objs []) \<union> set (group_items m True objs []).
         pd_DataFrame g = \<lparr>columns = cols, rows = map cells g\<rparr>) \<longrightarrow>
      obfuscate_file L file_content fields_list file_type output_format n =
      obfuscate_file L file_content fields_list file_type output_format m) \<and>
   (str_lower file_type = ''csv'' \<or> str_lower file_type = ''parquet'' \<longrightarrow>
      batches_read L file_content (str_lower file_type) n = (bs, None) \<longrightarrow>
      batches_read L file_content (str_lower file_type) m = (bs', None) \<longrightarrow>
      bs \<noteq> [] \<longrightarrow> bs' \<noteq> [] \<longrightarrow>
      (\<forall>b \<in> set bs \<union> set bs'. columns b = cols') \<longrightarrow>
      concat (map rows bs) = concat (map rows bs') \<longrightarrow>
      obfuscate_file L file_content fields_list file_type output_format n =
      obfuscate_file L file_content fields_list file_type output_format m)"
proof -
  have json: "obfuscate_file L file_content fields_list file_type output_format n =
      obfuscate_file L file_content fields_list file_type output_format m"
    if "str_lower file_type = ''json''" and "ijson_items L file_content = (objs, None)"
      and "\<forall>g \<in> set (group_items n True objs []) \<union> set (group_items m True objs []).
         pd_DataFrame g = \<lparr>columns = cols, rows = map cells g\<rparr>"
    using json_source_same_output [OF that, of fields_list]
    by (simp add: obfuscate_file_def obfuscate_file_try_def)
  have other: "obfuscate_file L file_content fields_list file_type output_format n =
      obfuscate_file L file_content fields_list file_type output_format m"
    if ft: "str_lower file_type = ''csv'' \<or> str_lower file_type = ''parquet''"
      and n: "batches_read L file_content (str_lower file_type) n = (bs, None)"
      and m: "batches_read L file_content (str_lower file_type) m = (bs', None)"
      and ne: "bs \<noteq> []" "bs' \<noteq> []"
      and cols: "\<forall>b \<in> set bs \<union> set bs'. columns b = cols'"
      and same: "concat (map rows bs) = concat (map rows bs')"
  proof -
    have sup: "str_lower file_type \<in> set supported_formats"
      using ft by (auto simp: supported_formats_def)
    show ?thesis
      using streaming_phase_same_table [OF sup n m ne cols same, of fields_list]
      by (simp add: obfuscate_file_def obfuscate_file_try_def)
  qed
  show ?thesis using json other by blast
qed

theorem C4_chunk_size_invariance_witness:
  "str_lower ''json'' = ''json'' \<and>
   ijson_items fragment three_texts = (three_objs, None) \<and>
   group_items 1 True three_objs [] = [[three_objs ! 0], [three_objs ! 1], [three_objs ! 2]] \<and>
   group_items 2 True three_objs [] = [[three_objs ! 0, three_objs ! 1], [three_objs ! 2]] \<and>
   group_items 3 True three_objs [] = [three_objs] \<and>
   group_items 7 True three_objs [] = [three_objs] \<and>
   list_all (\<lambda>g. pd_DataFrame g = \<lparr>columns = [''a'', ''b''], rows = map text_cells g\<rparr>)
     (group_items 1 True three_objs [] @ group_items 2 True three_objs [] @
      group_items 3 True three_objs [] @ group_items 7 True three_objs []) \<and>
   obfuscate_file fragment three_texts [''b''] ''json'' (Some ''csv'') 1 =
     obfuscate_file fragment three_texts [''b''] ''json'' (Some ''csv'') 3 \<and>
   obfuscate_file fragment three_texts [''b''] ''json'' (Some ''csv'') 2 =
     obfuscate_file fragment three_texts [''b''] ''json'' (Some ''csv'') 3 \<and>
   obfuscate_file fragment three_texts [''b''] ''json'' (Some ''csv'') 7 =
     obfuscate_file fragment three_texts [''b''] ''json'' (Some ''csv'') 3 \<and>
   obfuscate_file fragment three_texts [''b''] ''json'' (Some ''csv'') 3 =
     Inr \<lparr>getvalue = ''a,b'' @ [nl] @ ''u,***'' @ [nl] @ ''v,***'' @ [nl] @ ''w,***'' @ [nl], pos = 0\<rparr> \<and>
   (str_lower ''csv'' = ''csv'' \<or> str_lower ''csv'' = ''parquet'') \<and>
   batches_read fragment three_rows_csv (str_lower ''csv'') 2 =
     ([\<lparr>columns = [''a'', ''b''], rows = [[StrC ''u'', StrC ''x''], [StrC ''v'', StrC ''y'']]\<rparr>,
       \<lparr>columns = [''a'', ''b''], rows = [[StrC ''w'', StrC ''z'']]\<rparr>], None) \<and>
   batches_read fragment three_rows_csv (str_lower ''csv'') 3 =
     ([\<lparr>columns = [''a'', ''b''],
        rows = [[StrC ''u'', StrC ''x''], [StrC ''v'', StrC ''y''], [StrC ''w'', StrC ''z'']]\<rparr>], None) \<and>
   obfuscate_file fragment three_rows_csv [''b''] ''csv'' None 2 =
     obfuscate_file fragment three_rows_csv [''b''] ''csv'' None 3"
proof -
  have j: "str_lower ''json'' = ''json''"
    by code_simp
  have c: "str_lower ''csv'' = ''csv'' \<or> str_lower ''csv'' = ''parquet''"
    by code_simp
  have g1: "group_items 1 True three_objs [] = [[three_objs ! 0], [three_objs ! 1], [three_objs ! 2]]"
    and g2: "group_items 2 True three_objs [] = [[three_objs ! 0, three_objs ! 1], [three_objs ! 2]]"
    and g3: "group_items 3 True three_objs [] = [three_objs]"
    and g7: "group_items 7 True three_objs [] = [three_objs]"
    by code_simp+
  have typed: "\<forall>g \<in> set (group_items n True three_objs []) \<union> set (group_items 3 True three_objs []).
      pd_DataFrame g = \<lparr>columns = [''a'', ''b''], rows = map text_cells g\<rparr>"
    if "n = 1 \<or> n = 2 \<or> n = 7" for n :: int
    using three_typed that by (auto simp: list_all_iff)
  have e1: "obfuscate_file fragment three_texts [''b''] ''json'' (Some ''csv'') 1 =
     obfuscate_file fragment three_texts [''b''] ''json'' (Some ''csv'') 3"
    using C4_chunk_size_invariance [of "''json''" fragment three_texts three_objs 1 3
        "[''a'', ''b'']" text_cells "[''b'']" "Some ''csv''"] j three_items typed [of 1]
    by simp
  have e2: "obfuscate_file fragment three_texts [''b''] ''json'' (Some ''csv'') 2 =
     obfuscate_file fragment three_texts [''b''] ''json'' (Some ''csv'') 3"
    using C4_chunk_size_invariance [of "''json''" fragment three_texts three_objs 2 3
        "[''a'', ''b'']" text_cells "[''b'']" "Some ''csv''"] j three_items typed [of 2]
    by simp
  have e7: "obfuscate_file fragment three_texts [''b''] ''json'' (Some ''csv'') 7 =
     obfuscate_file fragment three_texts [''b''] ''json'' (Some ''csv'') 3"
    using C4_chunk_size_invariance [of "''json''" fragment three_texts three_objs 7 3
        "[''a'', ''b'']" text_cells "[''b'']" "Some ''csv''"] j three_items typed [of 7]
    by simp
  have ec: "obfuscate_file fragment three_rows_csv [''b''] ''csv'' None 2 =
     obfuscate_file fragment three_rows_csv [''b''] ''csv'' None 3"
    using C4_chunk_size_invariance [of "''csv''" fragment three_rows_csv _ 2 3 _ _ "[''b'']" None
        _ _ "[''a'', ''b'']"] c three_rows_2 three_rows_3
    by simp
  show ?thesis
    using j c three_items g1 g2 g3 g7 three_typed e1 e2 e7 three_full three_rows_2 three_rows_3 ec
    by (intro conjI) assumption+
qed

text \<open>
  The claim as stated asks the same output for every input.  Pandas chooses the type of a
  column batch by batch: for the two objects \<^verbatim>\<open>{"a": 1, "b": "x"}\<close> and
  \<^verbatim>\<open>{"a": null, "b": "y"}\<close>, chunk size 1 writes the integer as \<^verbatim>\<open>1\<close>, while the full row
  count 2 puts it in a float64 column and writes \<^verbatim>\<open>1.0\<close>.
\<close>

theorem C4_chunk_size_counterexample:
  "obfuscate_file fragment two_items [''b''] ''json'' (Some ''csv'') 1 \<noteq>
   obfuscate_file fragment two_items [''b''] ''json'' (Some ''csv'') 2"
  unfolding two_items_chunk_1 two_items_chunk_2 by simp

text \<open>
  Claim C5, amended.  The source format is lowered first: when its lower-case form is not
  one of \<^verbatim>\<open>csv\<close>, \<^verbatim>\<open>json\<close>, \<^verbatim>\<open>parquet\<close>, \<^verbatim>\<open>obfuscate_file\<close> ends with the \<^verbatim>\<open>ValueError\<close>
  that names it.  A target format that is given and is not one of the three, compared as
  it is written, ends the call with the \<^verbatim>\<open>ValueError\<close> that names it whenever the streaming
  phase before it has succeeded.
\<close>

theorem C5_unsupported_format:
  "(str_lower file_type \<notin> set supported_formats \<longrightarrow>
      obfuscate_file L file_content fields_list file_type output_format chunk_size =
        Inl (ValueError (''Error reading the file: '' @ ''Sorry that '' @ str_lower file_type @
               '' is not supported. This tool currently only support csv/json/parquet''))) \<and>
   (fmt \<notin> set supported_formats \<longrightarrow>
      (\<exists>output. convert_str_file_content_to_obfuscated_csv L file_content fields_list
                  (str_lower file_type) chunk_size = Inr output) \<longrightarrow>
      obfuscate_file L file_content fields_list file_type (Some fmt) chunk_size =
        Inl (ValueError (''Error reading the file: '' @ ''Sorry that '' @ fmt @
               '' is not supported. This tool currently only support csv/json/parquet'')))"
  by (auto simp: obfuscate_file_def obfuscate_file_try_def not_supported_def
      convert_str_file_content_to_obfuscated_csv_def)

theorem C5_unsupported_format_witness:
  "str_lower ''xlsx'' \<notin> set supported_formats \<and>
   obfuscate_file fragment student_csv [''name''] ''xlsx'' None 5000 =
     Inl (ValueError (''Error reading the file: Sorry that xlsx is not supported. '' @
            ''This tool currently only support csv/json/parquet'')) \<and>
   ''xml'' \<notin> set supported_formats \<and>
   convert_str_file_content_to_obfuscated_csv fragment two_texts [''b''] (str_lower ''json'') 5000 =
     Inr \<lparr>getvalue = ''a,b'' @ [nl] @ ''u,***'' @ [nl] @ ''v,***'' @ [nl], pos = 0\<rparr> \<and>
   obfuscate_file fragment two_texts [''b''] ''json'' (Some ''xml'') 5000 =
     Inl (ValueError (''Error reading the file: Sorry that xml is not supported. '' @
            ''This tool currently only support csv/json/parquet''))"
proof -
  have h1: "str_lower ''xlsx'' \<notin> set supported_formats"
    by code_simp
  have l: "str_lower ''xlsx'' = ''xlsx''"
    by code_simp
  have h2: "''xml'' \<notin> set supported_formats"
    by code_simp
  have h3: "convert_str_file_content_to_obfuscated_csv fragment two_texts [''b''] (str_lower ''json'') 5000 =
     Inr \<lparr>getvalue = ''a,b'' @ [nl] @ ''u,***'' @ [nl] @ ''v,***'' @ [nl], pos = 0\<rparr>"
    by code_simp
  show ?thesis
    using h1 h2 h3
      C5_unsupported_format [of "''xlsx''" fragment student_csv "[''name'']" None 5000 "''xml''"]
      C5_unsupported_format [of "''json''" fragment two_texts "[''b'']" None 5000 "''xml''"]
    by (simp add: l)
qed

text \<open>
  The claim as stated asks for the failure on every source format outside the three
  names.  \<^verbatim>\<open>CSV\<close> is none of them, and the call succeeds.
\<close>

theorem C5_upper_case_counterexample:
  "''CSV'' \<notin> set supported_formats \<and>
   obfuscate_file fragment student_csv [''name'', ''email_address''] ''CSV'' None 5000 =
     Inr \<lparr>getvalue = student_csv_masked, pos = 0\<rparr>"
  by code_simp



text \<open>
  Claim C7, amended.  \<^verbatim>\<open>obfuscate_file\<close> re-raises a \<^verbatim>\<open>KeyError\<close> as a \<^verbatim>\<open>KeyError\<close> labelled
  \<^verbatim>\<open>Error processing data chunk: \<close> and a \<^verbatim>\<open>ValueError\<close> as a \<^verbatim>\<open>ValueError\<close> labelled
  \<^verbatim>\<open>Error reading the file: \<close>; every other exception becomes a plain \<^verbatim>\<open>Exception\<close>
  labelled \<^verbatim>\<open>Unexpected error in obfuscating file: \<close>.  The label follows the class of the
  exception.  \<^verbatim>\<open>handle_file_obfuscation\<close> re-raises every exception as a plain
  \<^verbatim>\<open>Exception\<close> that carries its text, and leaves the store as it was.
\<close>

theorem C7_error_wrapping:
  "(obfuscate_file_try L file_content fields_list file_type output_format chunk_size = Inl e \<longrightarrow>
      obfuscate_file L file_content fields_list file_type output_format chunk_size =
        Inl (case e of
               KeyError a \<Rightarrow> KeyError (''Error processing data chunk: '' @ py_repr a)
             | ValueError a \<Rightarrow> ValueError (''Error reading the file: '' @ a)
             | TypeError a \<Rightarrow> Exception (''Unexpected error in obfuscating file: '' @ a)
             | Exception a \<Rightarrow> Exception (''Unexpected error in obfuscating file: '' @ a))) \<and>
   (fst (handle_file_obfuscation_try L store json_string d fmt chunk_size save) = Inl e' \<longrightarrow>
      handle_file_obfuscation L store json_string d fmt chunk_size save =
        (Inl (Exception (str_of e')), store))"
proof -
  have "handle_file_obfuscation L store json_string d fmt chunk_size save =
        (Inl (Exception (str_of e')), store)"
    if "fst (handle_file_obfuscation_try L store json_string d fmt chunk_size save) = Inl e'"
    using that handle_error_keeps_store [OF that]
    by (cases "handle_file_obfuscation_try L store json_string d fmt chunk_size save")
       (simp add: handle_file_obfuscation_def)
  then show ?thesis
    by (cases e) (simp_all add: obfuscate_file_def)
qed

theorem C7_error_wrapping_witness:
  "obfuscate_file_try fragment two_texts [''c''] ''json'' None 5000 =
     Inl (KeyError (''Field '' @ [sq] @ ''c'' @ [sq] @ '' notfound in the data.'')) \<and>
   obfuscate_file fragment two_texts [''c''] ''json'' None 5000 =
     Inl (KeyError (''Error processing data chunk: '' @
            py_repr (''Field '' @ [sq] @ ''c'' @ [sq] @ '' notfound in the data.''))) \<and>
   fst (handle_file_obfuscation_try fragment sample_store descriptor_missing False None 5000 True) =
     Inl (KeyError (''Error processing data chunk: '' @ [dq] @ ''Field '' @ [sq] @ ''c'' @ [sq] @
            '' notfound in the data.'' @ [dq])) \<and>
   handle_file_obfuscation fragment sample_store descriptor_missing False None 5000 True =
     (Inl (Exception (str_of (KeyError (''Error processing data chunk: '' @ [dq] @ ''Field '' @ [sq] @ ''c'' @ [sq] @
            '' notfound in the data.'' @ [dq])))), sample_store)"
  using missing_c_try missing_c_handler_try
    C7_error_wrapping [of fragment two_texts "[''c'']" "''json''" None 5000
      "KeyError (''Field '' @ [sq] @ ''c'' @ [sq] @ '' notfound in the data.'')"
      sample_store descriptor_missing False None True
      "KeyError (''Error processing data chunk: '' @ [dq] @ ''Field '' @ [sq] @ ''c'' @ [sq] @
            '' notfound in the data.'' @ [dq])"]
  by simp

text \<open>
  The claim as stated asks that the kind stays distinguishable for a caller of the entry
  points.  A missing field leaves \<^verbatim>\<open>obfuscate_file\<close> as a \<^verbatim>\<open>KeyError\<close> and
  \<^verbatim>\<open>handle_file_obfuscation\<close> as a plain \<^verbatim>\<open>Exception\<close>.
\<close>

theorem C7_kind_lost_counterexample:
  "obfuscate_file fragment two_texts [''c''] ''json'' None 5000 =
     Inl (KeyError (''Error processing data chunk: '' @ [dq] @ ''Field '' @ [sq] @ ''c'' @ [sq] @
            '' notfound in the data.'' @ [dq])) \<and>
   fst (handle_file_obfuscation fragment sample_store descriptor_missing False None 5000 True) =
     Inl (Exception ([sq] @ ''Error processing data chunk: '' @ [dq] @ ''Field '' @ [bsl, sq] @ ''c'' @ [bsl, sq] @
            '' notfound in the data.'' @ [dq, sq]))"
  by code_simp

text \<open>
  Claim C8, amended.  With a chunk size of zero or less the JSON reader rejects nothing:
  no group of items ever reaches the chunk size, so all items are gathered and processed
  as one batch, with the header, when the iterator ends.  The call fails only if the item
  iterator or the mask step fails.
\<close>

theorem C8_nonpositive_chunk_size:
  assumes "chunk_size \<le> 0"
  shows "process_json_chunk L file_content fields_list output chunk_size =
     (case ijson_items L file_content of
        (objs, Some e) \<Rightarrow> Inl e
      | (objs, None) \<Rightarrow>
          if objs = [] then Inr output
          else process_df_chunk (pd_DataFrame objs) fields_list output True)"
  using assms by (simp add: process_json_chunk_def json_loop_nonpositive split: prod.splits option.splits)

theorem C8_nonpositive_chunk_size_witness:
  "(- 1 :: int) \<le> 0 \<and>
   process_json_chunk fragment two_items [''b''] new_bytesio (- 1) =
     Inr \<lparr>getvalue = ''a,b'' @ [nl] @ ''1.0,***'' @ [nl] @ '',***'' @ [nl], pos = 17\<rparr>"
proof -
  have h: "(- 1 :: int) \<le> 0" by simp
  have v: "(case ijson_items fragment two_items of
        (objs, Some e) \<Rightarrow> Inl e
      | (objs, None) \<Rightarrow>
          if objs = [] then Inr new_bytesio
          else process_df_chunk (pd_DataFrame objs) [''b''] new_bytesio True)
       = Inr \<lparr>getvalue = ''a,b'' @ [nl] @ ''1.0,***'' @ [nl] @ '',***'' @ [nl], pos = 17\<rparr>"
    by code_simp
  show ?thesis
    using h C8_nonpositive_chunk_size [OF h, of fragment two_items "[''b'']" new_bytesio] unfolding v
    by simp
qed

text \<open>
  The claim as stated asks for a failure.  With chunk size 0 the JSON reader returns the
  buffer of the one batch.
\<close>

theorem C8_zero_chunk_size_counterexample:
  "process_json_chunk fragment two_items [''b''] new_bytesio 0 =
     Inr \<lparr>getvalue = ''a,b'' @ [nl] @ ''1.0,***'' @ [nl] @ '',***'' @ [nl], pos = 17\<rparr>"
  by code_simp

text \<open>
  Claim C9, amended.  After a successful run, when the result is not persisted the buffer
  is returned and the store is untouched; when it is persisted, the object is written
  under the source key with \<^verbatim>\<open>new_data\<close> replaced by \<^verbatim>\<open>processed_data\<close>, and the message names
  that key.  The replacement is \<^verbatim>\<open>str.replace\<close>: the first occurrence is replaced and the
  replacement goes on in the rest of the key, so every occurrence is replaced; a key
  without an occurrence is kept.
\<close>

theorem C9_output_key:
  assumes "json_input_handler L json_string = Inr (s3_bucket, file_key, fields_list)"
    and "read_s3_file L store s3_bucket file_key = Inr (content_str, file_extension)"
    and "obfuscate_file L content_str fields_list file_extension (if d then fmt else None) chunk_size = Inr buf"
  shows "handle_file_obfuscation L store json_string d fmt chunk_size False = (Inr (Returned buf), store) \<and>
     handle_file_obfuscation L store json_string d fmt chunk_size True =
       (case write_s3_file L store s3_bucket (str_replace file_key ''new_data'' ''processed_data'') buf of
          (Inl e, store') \<Rightarrow> (Inl (Exception (str_of e)), store')
        | (Inr msg, store') \<Rightarrow>
            (Inr (Saved (''Obfuscated file saved to s3://'' @ s3_bucket @ ''/'' @
                    str_replace file_key ''new_data'' ''processed_data'')), store')) \<and>
     (\<forall>pre post. \<not> occurs_in ''new_data'' (pre @ ''new_dat'') \<longrightarrow>
        str_replace (pre @ ''new_data'' @ post) ''new_data'' ''processed_data'' =
          pre @ ''processed_data'' @ str_replace post ''new_data'' ''processed_data'') \<and>
     (\<not> occurs_in ''new_data'' file_key \<longrightarrow>
        str_replace file_key ''new_data'' ''processed_data'' = file_key)"
proof -
  have not_saved: "handle_file_obfuscation L store json_string d fmt chunk_size False = (Inr (Returned buf), store)"
    using assms by (cases d) (simp_all add: handle_file_obfuscation_def handle_file_obfuscation_try_def)
  have saved: "handle_file_obfuscation L store json_string d fmt chunk_size True =
       (case write_s3_file L store s3_bucket (str_replace file_key ''new_data'' ''processed_data'') buf of
          (Inl e, store') \<Rightarrow> (Inl (Exception (str_of e)), store')
        | (Inr msg, store') \<Rightarrow>
            (Inr (Saved (''Obfuscated file saved to s3://'' @ s3_bucket @ ''/'' @
                    str_replace file_key ''new_data'' ''processed_data'')), store'))"
    using assms
    by (cases d)
       (simp_all add: handle_file_obfuscation_def handle_file_obfuscation_try_def Let_def
          split: prod.splits sum.splits)
  have first: "str_replace (pre @ ''new_data'' @ post) ''new_data'' ''processed_data'' =
          pre @ ''processed_data'' @ str_replace post ''new_data'' ''processed_data''"
    if "\<not> occurs_in ''new_data'' (pre @ ''new_dat'')" for pre post
    using str_replace_first_occurrence [of "''new_data''" pre post "''processed_data''"] that
    by simp
  have none: "str_replace file_key ''new_data'' ''processed_data'' = file_key"
    if "\<not> occurs_in ''new_data'' file_key"
    using str_replace_no_occurrence [of "''new_data''" file_key "''processed_data''"] that
    by simp
  show ?thesis using not_saved saved first none by blast
qed

theorem C9_output_key_witness:
  \<open>json_input_handler fragment descriptor_items = Inr (''bkt'', ''new_data/items.json'', [''b'']) \<and>
   read_s3_file fragment sample_store ''bkt'' ''new_data/items.json'' = Inr (two_texts, ''json'') \<and>
   obfuscate_file fragment two_texts [''b''] ''json'' None 5000 =
     Inr \<lparr>getvalue = ''{"a":"u","b":"***"}'' @ [nl] @ ''{"a":"v","b":"***"}'' @ [nl], pos = 0\<rparr> \<and>
   handle_file_obfuscation fragment sample_store descriptor_items False None 5000 False =
     (Inr (Returned \<lparr>getvalue = ''{"a":"u","b":"***"}'' @ [nl] @ ''{"a":"v","b":"***"}'' @ [nl], pos = 0\<rparr>),
      sample_store) \<and>
   fst (handle_file_obfuscation fragment sample_store descriptor_items False None 5000 True) =
     Inr (Saved ''Obfuscated file saved to s3://bkt/processed_data/items.json'')\<close>
proof -
  note h1 = ev_handler
  note h2 = ev_read
  have h3: \<open>obfuscate_file fragment two_texts [''b''] ''json'' (if False then None else None) 5000 =
     Inr \<lparr>getvalue = ''{"a":"u","b":"***"}'' @ [nl] @ ''{"a":"v","b":"***"}'' @ [nl], pos = 0\<rparr>\<close>
    using ev_obfuscate by simp
  show ?thesis
    using h1 h2 h3 ev_write C9_output_key [OF h1 h2 h3] unfolding ev_key
    by (simp split: prod.splits sum.splits)
qed

text \<open>
  The claim as stated replaces the first occurrence only.  For the key
  \<^verbatim>\<open>new_data/new_data.json\<close> the program writes to \<^verbatim>\<open>processed_data/processed_data.json\<close>,
  where replacing the first occurrence gives \<^verbatim>\<open>processed_data/new_data.json\<close>.
\<close>

theorem C9_every_occurrence_counterexample:
  \<open>fst (handle_file_obfuscation fragment sample_store descriptor_twice False None 5000 True) =
     Inr (Saved ''Obfuscated file saved to s3://bkt/processed_data/processed_data.json'') \<and>
   (case snd (handle_file_obfuscation fragment sample_store descriptor_twice False None 5000 True) ''bkt'' of
      None \<Rightarrow> None
    | Some objs \<Rightarrow> objs ''processed_data/processed_data.json'') =
     Some (''{"a":"u","b":"***"}'' @ [nl] @ ''{"a":"v","b":"***"}'' @ [nl]) \<and>
   replace_first ''new_data/new_data.json'' ''new_data'' ''processed_data'' = ''processed_data/new_data.json''\<close>
  by code_simp

end
